theory Spec2Isabelle
  imports Complex_Main
begin

section \<open>Python values, strings and exceptions\<close>

text \<open>
  The workflow moves JSON-shaped Python values around: whatever \<^verbatim>\<open>json.loads\<close> returns
  for a model reply and whatever the search client returns. They are modelled by one
  datatype. A Python \<^verbatim>\<open>dict\<close> is an association list (insertion order, keys looked up
  with \<open>map_of\<close>); a Python \<^verbatim>\<open>float\<close> is the real number it denotes. A Python
  \<^verbatim>\<open>str\<close> is a \<open>string\<close>, one \<open>char\<close> per character; the three non-ASCII
  literals of the source (the bullet and the two emoji) are spelled by their UTF-8 bytes.
\<close>

datatype json =
    JNull
  | JBool bool
  | JInt int
  | JFloat real
  | JStr string
  | JList "json list"
  | JDict "(string \<times> json) list"

text \<open>
  Exceptions are values. The interpreter's own errors carry no text here; the text that
  \<^verbatim>\<open>str(e)\<close> gives for them is a parameter of the service (\<open>builtin_text\<close> below).
\<close>

datatype py_error =
    TypeError
  | AttributeError
  | IndexError
  | KeyError
  | JSONDecodeError
  | ValueError string
  | Exception string

type_synonym 'a result = "py_error + 'a"

subsection \<open>String methods\<close>

text \<open>The whitespace that \<^verbatim>\<open>strip\<close> removes, for ASCII: codes 9 to 13 and 28 to 32.\<close>

definition py_isspace :: "char \<Rightarrow> bool" where
  "py_isspace c = (let n = (of_char c :: nat) in (9 \<le> n \<and> n \<le> 13) \<or> (28 \<le> n \<and> n \<le> 32))"

definition py_strip :: "string \<Rightarrow> string" where
  "py_strip s = rev (dropWhile py_isspace (rev (dropWhile py_isspace s)))"

fun py_split :: "char \<Rightarrow> string \<Rightarrow> string list" where
  "py_split sep [] = [[]]"
| "py_split sep (c # cs) =
     (if c = sep then [] # py_split sep cs
      else (case py_split sep cs of [] \<Rightarrow> [[c]] | w # ws \<Rightarrow> (c # w) # ws))"

fun py_join :: "string \<Rightarrow> string list \<Rightarrow> string" where
  "py_join sep [] = []"
| "py_join sep [x] = x"
| "py_join sep (x # y # ys) = x @ sep @ py_join sep (y # ys)"

text \<open>\<^verbatim>\<open>lower\<close>, for ASCII letters.\<close>

definition lower_char :: "char \<Rightarrow> char" where
  "lower_char c =
     (let n = (of_char c :: nat) in if 65 \<le> n \<and> n \<le> 90 then char_of (n + 32) else c)"

definition py_lower :: "string \<Rightarrow> string" where
  "py_lower s = map lower_char s"

fun startswith :: "string \<Rightarrow> string \<Rightarrow> bool" where
  "startswith s [] = True"
| "startswith [] (p # ps) = False"
| "startswith (c # cs) (p # ps) = (c = p \<and> startswith cs ps)"

text \<open>\<^verbatim>\<open>sub in s\<close> for two strings.\<close>

fun py_contains :: "string \<Rightarrow> string \<Rightarrow> bool" where
  "py_contains sub [] = (sub = [])"
| "py_contains sub (c # cs) = (startswith (c # cs) sub \<or> py_contains sub cs)"

subsection \<open>Dynamic operations on values\<close>

text \<open>Truth value of an object, as \<^verbatim>\<open>if x:\<close> and \<^verbatim>\<open>not x\<close> read it.\<close>

fun truthy :: "json \<Rightarrow> bool" where
  "truthy JNull = False"
| "truthy (JBool b) = b"
| "truthy (JInt i) = (i \<noteq> 0)"
| "truthy (JFloat r) = (r \<noteq> 0)"
| "truthy (JStr s) = (s \<noteq> [])"
| "truthy (JList xs) = (xs \<noteq> [])"
| "truthy (JDict kvs) = (kvs \<noteq> [])"

definition dict_get :: "(string \<times> json) list \<Rightarrow> string \<Rightarrow> json \<Rightarrow> json" where
  "dict_get kvs k dflt = (case map_of kvs k of Some v \<Rightarrow> v | None \<Rightarrow> dflt)"

text \<open>\<^verbatim>\<open>d[k] = v\<close> on a dict: an existing key keeps its place, a new one goes last.\<close>

fun dict_set :: "(string \<times> json) list \<Rightarrow> string \<Rightarrow> json \<Rightarrow> (string \<times> json) list" where
  "dict_set [] k v = [(k, v)]"
| "dict_set ((k', v') # kvs) k v =
     (if k' = k then (k, v) # kvs else (k', v') # dict_set kvs k v)"

text \<open>\<^verbatim>\<open>x.get(k, dflt)\<close>: only a dict has the method.\<close>

fun py_get :: "json \<Rightarrow> string \<Rightarrow> json \<Rightarrow> json result" where
  "py_get (JDict kvs) k dflt = Inr (dict_get kvs k dflt)"
| "py_get x k dflt = Inl AttributeError"

text \<open>\<^verbatim>\<open>x[k]\<close> with a string key.\<close>

fun py_getitem :: "json \<Rightarrow> string \<Rightarrow> json result" where
  "py_getitem (JDict kvs) k = (case map_of kvs k of Some v \<Rightarrow> Inr v | None \<Rightarrow> Inl KeyError)"
| "py_getitem x k = Inl TypeError"

text \<open>\<^verbatim>\<open>x[0]\<close> on a list.\<close>

fun py_first :: "json \<Rightarrow> json result" where
  "py_first (JList (x # xs)) = Inr x"
| "py_first (JList []) = Inl IndexError"
| "py_first x = Inl TypeError"

text \<open>\<^verbatim>\<open>k in x\<close> for a string \<open>k\<close>.\<close>

fun py_in :: "string \<Rightarrow> json \<Rightarrow> bool result" where
  "py_in k (JDict kvs) = Inr (map_of kvs k \<noteq> None)"
| "py_in k (JList xs) = Inr (JStr k \<in> set xs)"
| "py_in k (JStr s) = Inr (py_contains k s)"
| "py_in k x = Inl TypeError"

fun py_len :: "json \<Rightarrow> nat result" where
  "py_len (JStr s) = Inr (length s)"
| "py_len (JList xs) = Inr (length xs)"
| "py_len (JDict kvs) = Inr (length kvs)"
| "py_len x = Inl TypeError"

text \<open>The items a \<^verbatim>\<open>for\<close> loop over the value visits.\<close>

fun py_iter :: "json \<Rightarrow> json list result" where
  "py_iter (JList xs) = Inr xs"
| "py_iter (JStr s) = Inr (map (\<lambda>c. JStr [c]) s)"
| "py_iter (JDict kvs) = Inr (map (\<lambda>kv. JStr (fst kv)) kvs)"
| "py_iter x = Inl TypeError"

fun is_list :: "json \<Rightarrow> bool" where
  "is_list (JList xs) = True"
| "is_list x = False"

text \<open>\<^verbatim>\<open>a + b\<close>. A \<^verbatim>\<open>bool\<close> counts as the integer 0 or 1; the sum of floats is
  taken as the exact sum.\<close>

fun py_add :: "json \<Rightarrow> json \<Rightarrow> json result" where
  "py_add (JStr s) (JStr t) = Inr (JStr (s @ t))"
| "py_add (JList xs) (JList ys) = Inr (JList (xs @ ys))"
| "py_add (JInt a) (JInt b) = Inr (JInt (a + b))"
| "py_add (JInt a) (JBool b) = Inr (JInt (a + of_bool b))"
| "py_add (JBool a) (JInt b) = Inr (JInt (of_bool a + b))"
| "py_add (JBool a) (JBool b) = Inr (JInt (of_bool a + of_bool b))"
| "py_add (JFloat a) (JFloat b) = Inr (JFloat (a + b))"
| "py_add (JFloat a) (JInt b) = Inr (JFloat (a + of_int b))"
| "py_add (JInt a) (JFloat b) = Inr (JFloat (of_int a + b))"
| "py_add (JFloat a) (JBool b) = Inr (JFloat (a + of_bool b))"
| "py_add (JBool a) (JFloat b) = Inr (JFloat (of_bool a + b))"
| "py_add x y = Inl TypeError"

section \<open>The workflow state (models.py, RecipeState)\<close>

text \<open>
  \<^verbatim>\<open>RecipeState\<close> is a \<^verbatim>\<open>TypedDict\<close>; app.py builds it with every key present, so a
  record models it and \<^verbatim>\<open>state.get(key, default)\<close> is the field. The request fields and
  the tips are lists of strings; \<^verbatim>\<open>parsed_ingredients\<close> holds what
  \<^verbatim>\<open>RecipeService.parse_ingredients\<close> returns, a list of strings. The fields a model
  reply or the search client fills are dynamic values.
\<close>

record RecipeState =
  ingredients :: "string list"
  appliance :: string
  available_appliances :: "string list"
  dietary_restrictions :: "string list"
  cuisine_preference :: string
  skill_level :: string
  parsed_ingredients :: "string list"
  recipe_suggestions :: "json list"
  selected_recipe :: json
  alternative_recipes :: "json list"
  user_selected_alternative :: "string option"
  nutrition_info :: json
  shopping_list :: json
  cooking_tips :: "string list"
  final_recipe :: json
  online_search_results :: "json list"
  search_enhanced :: bool
  search_enhancement_complete :: bool
  verification_result :: "json option"
  processing_step :: string
  error_message :: string

section \<open>The service and its collaborators\<close>

text \<open>
  What a model call answers: it raises, or its \<^verbatim>\<open>response.content\<close> is a text. What the
  search client answers: it raises, or it returns a value.
\<close>

datatype llm_reply = LlmRaises py_error | LlmContent string

datatype search_reply = SearchRaises py_error | SearchReturns json

text \<open>
  \<^verbatim>\<open>WorkflowService\<close> with the collaborators it calls. Each call site of a model has its
  own reply, whatever the prompt was, so a theorem for all services holds for every
  behaviour of the model. The search client answers by call number, query and
  \<^verbatim>\<open>max_results\<close>. \<open>compile_reply\<close> is the outcome of the chain
  \<^verbatim>\<open>prompt | creative_llm | parser\<close> followed by \<^verbatim>\<open>.dict()\<close>. \<open>json_loads\<close> is
  \<^verbatim>\<open>json.loads\<close> (\<open>None\<close> when it raises \<^verbatim>\<open>JSONDecodeError\<close>), \<open>py_str\<close> is
  \<^verbatim>\<open>str\<close> on a value that is not a string, \<open>builtin_text\<close> is \<^verbatim>\<open>str\<close> on an
  exception of the interpreter or of a library.
\<close>

record WorkflowService =
  tavily_api_key :: "string option"
  combined_reply :: llm_reply
  tavily_search :: "nat \<Rightarrow> string \<Rightarrow> nat \<Rightarrow> search_reply"
  enhance_reply :: llm_reply
  tips_reply :: llm_reply
  compile_reply :: "json result"
  completion_reply :: llm_reply
  json_loads :: "string \<Rightarrow> json option"
  py_str :: "json \<Rightarrow> string"
  builtin_text :: "py_error \<Rightarrow> string"

text \<open>\<^verbatim>\<open>self.tavily_enabled = tavily_api_key is not None\<close>\<close>

definition tavily_enabled :: "WorkflowService \<Rightarrow> bool" where
  "tavily_enabled svc = (tavily_api_key svc \<noteq> None)"

text \<open>\<^verbatim>\<open>self.tavily_client = TavilyClient(api_key=tavily_api_key) if tavily_api_key else None\<close>;
  the predicate says that the client is there.\<close>

definition tavily_client :: "WorkflowService \<Rightarrow> bool" where
  "tavily_client svc = (case tavily_api_key svc of None \<Rightarrow> False | Some k \<Rightarrow> k \<noteq> [])"

definition str_of_error :: "WorkflowService \<Rightarrow> py_error \<Rightarrow> string" where
  "str_of_error svc e =
     (case e of ValueError m \<Rightarrow> m | Exception m \<Rightarrow> m | _ \<Rightarrow> builtin_text svc e)"

text \<open>A value inside an f-string.\<close>

definition format_value :: "WorkflowService \<Rightarrow> json \<Rightarrow> string" where
  "format_value svc v = (case v of JStr s \<Rightarrow> s | _ \<Rightarrow> py_str svc v)"

text \<open>The external calls a node makes, in order.\<close>

datatype gateway_call =
    SearchCall string nat
  | EnhanceTipsCall
  | CorrectionCall

section \<open>LLMService and RecipeService (src/services)\<close>

text \<open>
  \<^verbatim>\<open>LLMService.generate_json_response\<close>: the client is invoked and its content parsed;
  both failures leave as an \<^verbatim>\<open>Exception\<close> with a text of its own.
\<close>

definition generate_json_response :: "WorkflowService \<Rightarrow> llm_reply \<Rightarrow> json result" where
  "generate_json_response svc reply =
     (case reply of
        LlmRaises e \<Rightarrow> Inl (Exception (''JSON generation failed: '' @ str_of_error svc e))
      | LlmContent content \<Rightarrow>
          (case json_loads svc content of
             None \<Rightarrow>
               Inl (Exception (''Failed to parse JSON response: '' @ str_of_error svc JSONDecodeError))
           | Some v \<Rightarrow> Inr v))"

text \<open>\<^verbatim>\<open>RecipeService.generate_combined_recipe\<close>: the prompt is built from fields that are
  always there, the gateway is called, and any exception is raised again.\<close>

definition generate_combined_recipe :: "WorkflowService \<Rightarrow> RecipeState \<Rightarrow> json result" where
  "generate_combined_recipe svc state = generate_json_response svc (combined_reply svc)"

text \<open>\<^verbatim>\<open>[ingredient.strip() for ingredient in ingredients if ingredient.strip()]\<close>\<close>

definition parse_ingredients :: "string list \<Rightarrow> string list" where
  "parse_ingredients ings = map py_strip (filter (\<lambda>i. py_strip i \<noteq> []) ings)"

text \<open>\<^verbatim>\<open>all(key in recipe_data for key in required_keys)\<close>, stopping at the first key that
  is missing or at the first \<^verbatim>\<open>in\<close> that raises.\<close>

fun all_keys_in :: "string list \<Rightarrow> json \<Rightarrow> bool result" where
  "all_keys_in [] recipe_data = Inr True"
| "all_keys_in (k # ks) recipe_data =
     (case py_in k recipe_data of
        Inl e \<Rightarrow> Inl e
      | Inr found \<Rightarrow> if found then all_keys_in ks recipe_data else Inr False)"

definition required_keys :: "string list" where
  "required_keys = [''recipe'', ''nutrition'', ''shopping_list'']"

definition validate_recipe_data :: "json \<Rightarrow> bool result" where
  "validate_recipe_data recipe_data = all_keys_in required_keys recipe_data"

definition bullet :: string where
  "bullet = [CHR 0xE2, CHR 0x80, CHR 0xA2, CHR '' '']"

definition plate_sparkles :: string where
  "plate_sparkles =
     [CHR 0xF0, CHR 0x9F, CHR 0x8D, CHR 0xBD, CHR 0xEF, CHR 0xB8, CHR 0x8F,
      CHR 0xE2, CHR 0x9C, CHR 0xA8]"

text \<open>\<^verbatim>\<open>RecipeService.create_fallback_recipe\<close>; the result is the dict's items.\<close>

definition create_fallback_recipe :: "string list \<Rightarrow> string \<Rightarrow> (string \<times> json) list" where
  "create_fallback_recipe ings appl =
      [(''recipe'', JDict
         [(''name'', JStr ''Simple Mixed Dish''),
          (''description'', JStr (''A simple dish using available ingredients with '' @ appl)),
          (''emoji_representation'', JStr plate_sparkles),
          (''prep_time'', JInt 15),
          (''cook_time'', JInt 30),
          (''total_time'', JInt 45),
          (''servings'', JInt 4),
          (''difficulty'', JStr ''Easy''),
          (''cuisine_type'', JStr ''International''),
          (''appliance_used'', JStr appl),
          (''ingredients'', JList (map (\<lambda>ingredient. JStr (bullet @ ingredient)) ings)),
          (''instructions'', JList
            [JStr ''1. Prepare all ingredients by washing and chopping as needed'',
             JStr (''2. Use your '' @ appl @ '' to cook the ingredients''),
             JStr ''3. Season to taste with salt and pepper'',
             JStr ''4. Cook until ingredients are tender and flavors are combined'',
             JStr ''5. Serve hot and enjoy!'']),
          (''tips'', JList
            [JStr ''Taste and adjust seasoning as needed'',
             JStr ''Don't overcook the vegetables'',
             JStr ''Add herbs or spices to enhance flavor'']),
          (''variations'', JList
            [JStr ''Add different seasonings'',
             JStr ''Include additional vegetables'',
             JStr ''Try different cooking methods'']),
          (''storage_instructions'', JStr ''Store in refrigerator for up to 3 days'')]),
       (''nutrition'', JDict
         [(''calories_per_serving'', JInt 300),
          (''protein_g'', JFloat 12),
          (''carbs_g'', JFloat 40),
          (''fat_g'', JFloat 10),
          (''fiber_g'', JFloat 5),
          (''sodium_mg'', JFloat 500),
          (''sugar_g'', JFloat 6),
          (''key_nutrients'', JList [JStr ''Vitamin C'', JStr ''Iron'', JStr ''Calcium'']),
          (''health_benefits'', JList
            [JStr ''Provides balanced nutrition'', JStr ''Contains essential vitamins''])]),
       (''shopping_list'', JList [JStr ''Basic seasonings if needed''])]"

section \<open>The draft stage (WorkflowService.combined_recipe_generation_node)\<close>

text \<open>
  The inner \<^verbatim>\<open>try\<close>: generate, validate, then copy the three parts into the state. The
  four assignments read \<^verbatim>\<open>response_data[key]\<close> one after the other; the first that
  raises ends the block. Its handler overwrites the same four fields, so the state it
  starts from can be the one before the block.
\<close>

definition store_generated :: "WorkflowService \<Rightarrow> RecipeState \<Rightarrow> RecipeState result" where
  "store_generated svc state =
     (case generate_combined_recipe svc state of
        Inl e \<Rightarrow> Inl e
      | Inr response_data \<Rightarrow>
          (case validate_recipe_data response_data of
             Inl e \<Rightarrow> Inl e
           | Inr valid \<Rightarrow>
               if \<not> valid then Inl (ValueError ''Invalid recipe data structure'')
               else
                 (case py_getitem response_data ''recipe'' of
                    Inl e \<Rightarrow> Inl e
                  | Inr recipe \<Rightarrow>
                      (case py_getitem response_data ''nutrition'' of
                         Inl e \<Rightarrow> Inl e
                       | Inr nutrition \<Rightarrow>
                           (case py_getitem response_data ''shopping_list'' of
                              Inl e \<Rightarrow> Inl e
                            | Inr shopping \<Rightarrow>
                                Inr (state\<lparr>selected_recipe := recipe,
                                           nutrition_info := nutrition,
                                           shopping_list := shopping,
                                           final_recipe := recipe\<rparr>))))))"

text \<open>The handler of the inner \<^verbatim>\<open>try\<close>. The three keys it reads are in the fallback
  dict, so the reads raise nothing.\<close>

definition use_fallback :: "string list \<Rightarrow> RecipeState \<Rightarrow> RecipeState" where
  "use_fallback ingredients_list state =
     (let fallback_data = create_fallback_recipe ingredients_list (appliance state) in
      state\<lparr>selected_recipe := dict_get fallback_data ''recipe'' JNull,
            nutrition_info := dict_get fallback_data ''nutrition'' JNull,
            shopping_list := dict_get fallback_data ''shopping_list'' JNull,
            final_recipe := dict_get fallback_data ''recipe'' JNull\<rparr>)"

text \<open>
  The node. Its outer handler turns any exception that is left into
  \<^verbatim>\<open>Exception("Error in combined recipe generation: ...")\<close>; parsing the ingredients and
  building the fallback raise nothing, so no such exception is left.
\<close>

definition combined_recipe_generation_node ::
  "WorkflowService \<Rightarrow> RecipeState \<Rightarrow> RecipeState result" where
  "combined_recipe_generation_node svc state0 =
     (let ingredients_list = ingredients state0;
          state = state0\<lparr>parsed_ingredients := parse_ingredients ingredients_list\<rparr>
      in case store_generated svc state of
           Inr state' \<Rightarrow> Inr state'
         | Inl e \<Rightarrow> Inr (use_fallback ingredients_list state))"

section \<open>The nodes of nodes.py (RecipeNodes)\<close>

subsection \<open>online_search_node\<close>

text \<open>
  The queries, in the order the source appends them. \<^verbatim>\<open>selected_recipe.get("name")\<close>
  raises when the draft is no dict; the outer handler of the node takes that.
\<close>

definition build_search_queries :: "WorkflowService \<Rightarrow> RecipeState \<Rightarrow> string list result" where
  "build_search_queries svc state =
     (case py_get (selected_recipe state) ''name'' JNull of
        Inl e \<Rightarrow> Inl e
      | Inr recipe_name \<Rightarrow>
          Inr ((if truthy recipe_name
                then [format_value svc recipe_name @ '' recipe cooking tips best practices'']
                else [])
             @ (if ingredients state \<noteq> []
                then [''cooking techniques '' @ py_join '' '' (take 3 (ingredients state))
                      @ '' '' @ cuisine_preference state @ '' cuisine'']
                else [])
             @ (if available_appliances state \<noteq> []
                then [''cooking tips '' @ py_join '' '' (available_appliances state)
                      @ '' techniques professional chef'']
                else [])))"

text \<open>
  The loop over \<^verbatim>\<open>response["results"]\<close>. A result that is no dict has no \<^verbatim>\<open>get\<close>: the
  loop stops there, and what was appended before stays in \<^verbatim>\<open>search_results\<close>.
\<close>

fun collect_results :: "string \<Rightarrow> json list \<Rightarrow> json list \<Rightarrow> json list \<times> py_error option" where
  "collect_results query [] search_results = (search_results, None)"
| "collect_results query (r # rest) search_results =
     (case r of
        JDict kvs \<Rightarrow>
          collect_results query rest
            (search_results @
              [JDict [(''title'', dict_get kvs ''title'' (JStr [])),
                      (''content'', dict_get kvs ''content'' (JStr [])),
                      (''url'', dict_get kvs ''url'' (JStr [])),
                      (''query'', JStr query)]])
      | _ \<Rightarrow> (search_results, Some AttributeError))"

text \<open>
  The body of the inner \<^verbatim>\<open>try\<close> for one query, call number \<open>i\<close>: the results collected
  so far, and the exception that ended the body, if one did.
\<close>

definition search_attempt ::
  "WorkflowService \<Rightarrow> nat \<Rightarrow> string \<Rightarrow> json list \<Rightarrow> json list \<times> py_error option" where
  "search_attempt svc i query search_results =
     (case tavily_search svc i query 2 of
        SearchRaises e \<Rightarrow> (search_results, Some e)
      | SearchReturns response \<Rightarrow>
          if \<not> truthy response then (search_results, None)
          else
            (case py_in ''results'' response of
               Inl e \<Rightarrow> (search_results, Some e)
             | Inr found \<Rightarrow>
                 if \<not> found then (search_results, None)
                 else
                   (case py_getitem response ''results'' of
                      Inl e \<Rightarrow> (search_results, Some e)
                    | Inr rs \<Rightarrow>
                        (case py_iter rs of
                           Inl e \<Rightarrow> (search_results, Some e)
                         | Inr items \<Rightarrow> collect_results query items search_results))))"

text \<open>\<^verbatim>\<open>"unauthorized" in error_str or "api key" in error_str\<close>, on the lowered text.\<close>

definition is_auth_error :: "string \<Rightarrow> bool" where
  "is_auth_error text =
     (let error_str = py_lower text
      in py_contains ''unauthorized'' error_str \<or> py_contains ''api key'' error_str)"

text \<open>
  The \<^verbatim>\<open>for\<close> loop over the queries: \<^verbatim>\<open>break\<close> on an authentication error,
  \<^verbatim>\<open>continue\<close> on any other. The second component lists the searches issued.
\<close>

fun perform_searches ::
  "WorkflowService \<Rightarrow> nat \<Rightarrow> string list \<Rightarrow> json list \<Rightarrow> json list \<times> gateway_call list" where
  "perform_searches svc i [] search_results = (search_results, [])"
| "perform_searches svc i (query # rest) search_results =
     (case search_attempt svc i query search_results of
        (collected, None) \<Rightarrow>
          (case perform_searches svc (Suc i) rest collected of
             (final, calls) \<Rightarrow> (final, SearchCall query 2 # calls))
      | (collected, Some search_error) \<Rightarrow>
          if is_auth_error (str_of_error svc search_error)
          then (collected, [SearchCall query 2])
          else
            (case perform_searches svc (Suc i) rest collected of
               (final, calls) \<Rightarrow> (final, SearchCall query 2 # calls)))"

definition online_search_node ::
  "WorkflowService \<Rightarrow> RecipeState \<Rightarrow> RecipeState \<times> gateway_call list" where
  "online_search_node svc state0 =
     (let state = state0\<lparr>processing_step := ''online_search''\<rparr> in
      if \<not> tavily_client svc
      then (state\<lparr>online_search_results := [], search_enhanced := False\<rparr>, [])
      else
        (case build_search_queries svc state of
           Inl e \<Rightarrow>
             (state\<lparr>online_search_results := [],
                    search_enhanced := False,
                    error_message := ''Online search error: '' @ str_of_error svc e\<rparr>, [])
         | Inr search_queries \<Rightarrow>
             (case perform_searches svc 0 (take 2 search_queries) [] of
                (search_results, calls) \<Rightarrow>
                  (state\<lparr>online_search_results := search_results,
                         search_enhanced := (length search_results > 0),
                         processing_step := ''online_search_complete''\<rparr>, calls))))"

subsection \<open>enhance_with_search_node\<close>

text \<open>The contents put into the prompt: one text per result whose content is true.\<close>

fun build_search_content :: "WorkflowService \<Rightarrow> json list \<Rightarrow> string list result" where
  "build_search_content svc [] = Inr []"
| "build_search_content svc (r # rest) =
     (case py_get r ''content'' JNull of
        Inl e \<Rightarrow> Inl e
      | Inr content \<Rightarrow>
          if truthy content
          then
            (case py_get r ''title'' (JStr ''Unknown'') of
               Inl e \<Rightarrow> Inl e
             | Inr title \<Rightarrow>
                 (case build_search_content svc rest of
                    Inl e \<Rightarrow> Inl e
                  | Inr others \<Rightarrow>
                      Inr ((''Source: '' @ format_value svc title @ [CHR 0x0A]
                            @ format_value svc content) # others)))
          else build_search_content svc rest)"

text \<open>
  The loop that removes duplicates: a tip that is a string and not yet seen is appended.
\<close>

fun unique_loop :: "json list \<Rightarrow> string list \<Rightarrow> string set \<Rightarrow> string list" where
  "unique_loop [] unique_tips seen = unique_tips"
| "unique_loop (tip # rest) unique_tips seen =
     (case tip of
        JStr t \<Rightarrow>
          if t \<notin> seen then unique_loop rest (unique_tips @ [t]) (insert t seen)
          else unique_loop rest unique_tips seen
      | _ \<Rightarrow> unique_loop rest unique_tips seen)"

text \<open>\<^verbatim>\<open>all_tips = current_tips + enhanced_tips\<close>, the loop, then \<^verbatim>\<open>unique_tips[:8]\<close>.\<close>

definition merge_tips :: "string list \<Rightarrow> json list \<Rightarrow> string list" where
  "merge_tips current_tips enhanced_tips =
     take 8 (unique_loop (map JStr current_tips @ enhanced_tips) [] {})"

text \<open>
  The node. Everything up to the model call sits in the outer \<^verbatim>\<open>try\<close>, whose handler
  leaves the state as it is; parsing the reply sits in the inner one, whose handlers do
  the same. The state changes in one place only, after a list was parsed.
\<close>

definition enhance_with_search_node ::
  "WorkflowService \<Rightarrow> RecipeState \<Rightarrow> RecipeState \<times> gateway_call list" where
  "enhance_with_search_node svc state0 =
     (let state = state0\<lparr>processing_step := ''search_enhancement''\<rparr> in
      if search_enhancement_complete state then (state, [])
      else if \<not> search_enhanced state \<or> online_search_results state = [] then (state, [])
      else
        (case build_search_content svc (online_search_results state) of
           Inl e \<Rightarrow> (state, [])
         | Inr search_content \<Rightarrow>
             if search_content = [] then (state, [])
             else
               (let current_tips = cooking_tips state in
                case py_get (selected_recipe state) ''name'' (JStr ''Unknown Recipe'') of
                  Inl e \<Rightarrow> (state, [])
                | Inr recipe_name \<Rightarrow>
                    (case enhance_reply svc of
                       LlmRaises e \<Rightarrow> (state, [EnhanceTipsCall])
                     | LlmContent response_content \<Rightarrow>
                         (case json_loads svc response_content of
                            None \<Rightarrow> (state, [EnhanceTipsCall])
                          | Some enhanced_tips \<Rightarrow>
                              (case enhanced_tips of
                                 JList new_tips \<Rightarrow>
                                   (state\<lparr>cooking_tips := merge_tips current_tips new_tips,
                                          processing_step := ''search_enhancement_complete'',
                                          search_enhancement_complete := True\<rparr>,
                                    [EnhanceTipsCall])
                               | _ \<Rightarrow> (state, [EnhanceTipsCall])))))))"

subsection \<open>cooking_tips_node\<close>

definition generic_tips :: "string list" where
  "generic_tips =
     [''Read through the entire recipe before starting'',
      ''Prep all ingredients before cooking'',
      ''Keep a clean workspace'',
      ''Taste as you go and adjust seasoning'']"

text \<open>\<^verbatim>\<open>[tip.strip() for tip in response.content.split('\n') if tip.strip()]\<close>\<close>

definition split_tips :: "string \<Rightarrow> string list" where
  "split_tips content =
     map py_strip (filter (\<lambda>tip. py_strip tip \<noteq> []) (py_split (CHR 0x0A) content))"

definition cooking_tips_node :: "WorkflowService \<Rightarrow> RecipeState \<Rightarrow> RecipeState" where
  "cooking_tips_node svc state0 =
     (let state = state0\<lparr>processing_step := ''cooking_tips''\<rparr> in
      case tips_reply svc of
        LlmContent content \<Rightarrow>
          state\<lparr>cooking_tips := split_tips content,
                processing_step := ''cooking_tips_complete''\<rparr>
      | LlmRaises e \<Rightarrow> state\<lparr>cooking_tips := generic_tips\<rparr>)"

subsection \<open>final_recipe_compiler_node\<close>

text \<open>\<^verbatim>\<open>x[k] = v\<close> with a string key.\<close>

fun py_setitem :: "json \<Rightarrow> string \<Rightarrow> json \<Rightarrow> json result" where
  "py_setitem (JDict kvs) k v = Inr (JDict (dict_set kvs k v))"
| "py_setitem x k v = Inl TypeError"

text \<open>
  The \<^verbatim>\<open>try\<close> block: the chain answers, and a list in \<^verbatim>\<open>appliance_used\<close> is replaced
  by its first element.
\<close>

definition compile_recipe :: "WorkflowService \<Rightarrow> RecipeState \<Rightarrow> RecipeState result" where
  "compile_recipe svc state =
     (case compile_reply svc of
        Inl e \<Rightarrow> Inl e
      | Inr final_recipe_dict \<Rightarrow>
          (case py_get final_recipe_dict ''appliance_used'' JNull of
             Inl e \<Rightarrow> Inl e
           | Inr used \<Rightarrow>
               if is_list used
               then
                 (case py_first used of
                    Inl e \<Rightarrow> Inl e
                  | Inr primary \<Rightarrow>
                      (case py_setitem final_recipe_dict ''appliance_used'' primary of
                         Inl e \<Rightarrow> Inl e
                       | Inr fixed \<Rightarrow>
                           Inr (state\<lparr>final_recipe := fixed,
                                      processing_step := ''final_recipe_complete''\<rparr>)))
               else Inr (state\<lparr>final_recipe := final_recipe_dict,
                               processing_step := ''final_recipe_complete''\<rparr>)))"

text \<open>\<^verbatim>\<open>ing['name']\<close> where \<^verbatim>\<open>ing\<close> is a string: a string takes no string index.\<close>

definition str_getitem :: "string \<Rightarrow> string \<Rightarrow> json result" where
  "str_getitem s k = Inl TypeError"

text \<open>The comprehension over \<^verbatim>\<open>state["parsed_ingredients"]\<close> in the handler.\<close>

fun bullet_names :: "WorkflowService \<Rightarrow> string list \<Rightarrow> json list result" where
  "bullet_names svc [] = Inr []"
| "bullet_names svc (ing # rest) =
     (case str_getitem ing ''name'' of
        Inl e \<Rightarrow> Inl e
      | Inr n \<Rightarrow>
          (case bullet_names svc rest of
             Inl e \<Rightarrow> Inl e
           | Inr others \<Rightarrow> Inr (JStr (bullet @ format_value svc n) # others)))"

text \<open>
  The handler: the final recipe built from the state, its entries evaluated in the order
  of the dict display. An exception in here leaves the node.
\<close>

definition compile_fallback :: "WorkflowService \<Rightarrow> RecipeState \<Rightarrow> RecipeState result" where
  "compile_fallback svc state =
     (let primary_appliance = appliance state; draft = selected_recipe state in
      case py_get draft ''name'' (JStr ''Custom Recipe'') of
        Inl e \<Rightarrow> Inl e
      | Inr name \<Rightarrow>
      (case py_get draft ''description'' (JStr ''A delicious homemade dish'') of
        Inl e \<Rightarrow> Inl e
      | Inr description \<Rightarrow>
      (case bullet_names svc (parsed_ingredients state) of
        Inl e \<Rightarrow> Inl e
      | Inr ingredient_lines \<Rightarrow>
      (case py_get draft ''prep_time'' (JInt 15) of
        Inl e \<Rightarrow> Inl e
      | Inr prep \<Rightarrow>
      (case py_get draft ''cook_time'' (JInt 30) of
        Inl e \<Rightarrow> Inl e
      | Inr cook \<Rightarrow>
      (case py_add prep cook of
        Inl e \<Rightarrow> Inl e
      | Inr summed \<Rightarrow>
      (case py_get draft ''servings'' (JInt 4) of
        Inl e \<Rightarrow> Inl e
      | Inr servings \<Rightarrow>
      (case py_get draft ''difficulty'' (JStr ''Medium'') of
        Inl e \<Rightarrow> Inl e
      | Inr difficulty \<Rightarrow>
      (case py_get draft ''cuisine_type'' (JStr ''International'') of
        Inl e \<Rightarrow> Inl e
      | Inr cuisine \<Rightarrow>
          Inr (state\<lparr>final_recipe := JDict
            [(''name'', name),
             (''description'', description),
             (''ingredients'', JList ingredient_lines),
             (''instructions'', JList
               [JStr ''1. Prepare all ingredients'',
                JStr ''2. Follow cooking method for your appliance'',
                JStr ''3. Cook until done'',
                JStr ''4. Serve and enjoy!'']),
             (''prep_time'', prep),
             (''cook_time'', cook),
             (''total_time'', summed),
             (''servings'', servings),
             (''difficulty'', difficulty),
             (''cuisine_type'', cuisine),
             (''appliance_used'', JStr primary_appliance),
             (''nutrition'', nutrition_info state),
             (''tips'', JList (map JStr (cooking_tips state))),
             (''variations'', JList [JStr ''Try different seasonings'', JStr ''Add more vegetables'']),
             (''storage_instructions'', JStr ''Store in refrigerator for up to 3 days''),
             (''emoji_representation'', JStr plate_sparkles)]\<rparr>))))))))))"

definition final_recipe_compiler_node ::
  "WorkflowService \<Rightarrow> RecipeState \<Rightarrow> RecipeState result" where
  "final_recipe_compiler_node svc state0 =
     (let state = state0\<lparr>processing_step := ''final_recipe_compilation''\<rparr> in
      case compile_recipe svc state of
        Inr state' \<Rightarrow> Inr state'
      | Inl e \<Rightarrow> compile_fallback svc state)"

subsection \<open>instruction_completion_node\<close>

text \<open>\<^verbatim>\<open>sum(len(inst) for inst in instructions)\<close>\<close>

fun total_length :: "json list \<Rightarrow> nat result" where
  "total_length [] = Inr 0"
| "total_length (inst # rest) =
     (case py_len inst of
        Inl e \<Rightarrow> Inl e
      | Inr n \<Rightarrow> (case total_length rest of Inl e \<Rightarrow> Inl e | Inr m \<Rightarrow> Inr (n + m)))"

text \<open>
  The test that sets \<^verbatim>\<open>needs_completion\<close>. The average is the quotient of two integers,
  taken here as the exact quotient.
\<close>

definition needs_completion :: "json \<Rightarrow> bool result" where
  "needs_completion instructions =
     (if \<not> truthy instructions then Inr True
      else
        (case py_len instructions of
           Inl e \<Rightarrow> Inl e
         | Inr n \<Rightarrow>
             if n < 3 then Inr True
             else
               (case py_iter instructions of
                  Inl e \<Rightarrow> Inl e
                | Inr items \<Rightarrow>
                    (case total_length items of
                       Inl e \<Rightarrow> Inl e
                     | Inr chars \<Rightarrow> Inr (real chars / real n < 30)))))"

fun strings_of :: "json list \<Rightarrow> string list result" where
  "strings_of [] = Inr []"
| "strings_of (JStr s # rest) =
     (case strings_of rest of Inl e \<Rightarrow> Inl e | Inr ss \<Rightarrow> Inr (s # ss))"
| "strings_of (x # rest) = Inl TypeError"

text \<open>\<^verbatim>\<open>sep.join(v)\<close>: every item of \<^verbatim>\<open>v\<close> has to be a string.\<close>

definition py_join_value :: "string \<Rightarrow> json \<Rightarrow> string result" where
  "py_join_value sep v =
     (case py_iter v of
        Inl e \<Rightarrow> Inl e
      | Inr items \<Rightarrow>
          (case strings_of items of Inl e \<Rightarrow> Inl e | Inr ss \<Rightarrow> Inr (py_join sep ss)))"

text \<open>
  The inner \<^verbatim>\<open>try\<close> after the correction call: only \<^verbatim>\<open>JSONDecodeError\<close> is handled in
  place, any other exception goes to the outer handler.
\<close>

definition apply_completion ::
  "WorkflowService \<Rightarrow> RecipeState \<Rightarrow> json \<Rightarrow> json \<Rightarrow> string \<Rightarrow> RecipeState result" where
  "apply_completion svc state recipe instructions content =
     (case json_loads svc content of
        None \<Rightarrow> Inr state
      | Some completion_result \<Rightarrow>
          (case py_get completion_result ''complete_instructions'' (JList []) of
             Inl e \<Rightarrow> Inl e
           | Inr complete_instructions \<Rightarrow>
               if \<not> truthy complete_instructions then Inr state
               else
                 (case py_len complete_instructions of
                    Inl e \<Rightarrow> Inl e
                  | Inr n \<Rightarrow>
                      (case py_len instructions of
                         Inl e \<Rightarrow> Inl e
                       | Inr m \<Rightarrow>
                           if n > m
                           then
                             (case py_setitem recipe ''instructions'' complete_instructions of
                                Inl e \<Rightarrow> Inl e
                              | Inr recipe' \<Rightarrow>
                                  Inr (state\<lparr>final_recipe := recipe',
                                             selected_recipe := recipe'\<rparr>))
                           else Inr state))))"

text \<open>
  The node. The outer handler passes, so an exception ends the node with the state as
  it is then; the only fields written before the last line are those of a successful
  replacement, after which nothing raises.
\<close>

definition instruction_completion_node ::
  "WorkflowService \<Rightarrow> RecipeState \<Rightarrow> RecipeState \<times> gateway_call list" where
  "instruction_completion_node svc state0 =
     (let state = state0\<lparr>processing_step := ''instruction_completion''\<rparr>;
          recipe = final_recipe state
      in
      if \<not> truthy recipe then (state, [])
      else
        (case py_get recipe ''instructions'' (JList []) of
           Inl e \<Rightarrow> (state, [])
         | Inr instructions \<Rightarrow>
        (case py_get recipe ''ingredients'' (JList []) of
           Inl e \<Rightarrow> (state, [])
         | Inr recipe_ingredients \<Rightarrow>
        (case needs_completion instructions of
           Inl e \<Rightarrow> (state, [])
         | Inr needs \<Rightarrow>
             if \<not> needs
             then (state\<lparr>processing_step := ''instruction_completion_complete''\<rparr>, [])
             else
               (case py_join_value '', '' recipe_ingredients of
                  Inl e \<Rightarrow> (state, [])
                | Inr joined \<Rightarrow>
                    (case completion_reply svc of
                       LlmRaises e \<Rightarrow> (state, [CorrectionCall])
                     | LlmContent content \<Rightarrow>
                         (case apply_completion svc state recipe instructions content of
                            Inl e \<Rightarrow> (state, [CorrectionCall])
                          | Inr state' \<Rightarrow>
                              (state'\<lparr>processing_step := ''instruction_completion_complete''\<rparr>,
                               [CorrectionCall]))))))))"

section \<open>The stages and the graph (WorkflowService)\<close>

text \<open>The first block of \<^verbatim>\<open>enhanced_cooking_tips_node\<close>: search, then enhancement when the
  search left results.\<close>

definition search_and_enhance :: "WorkflowService \<Rightarrow> RecipeState \<Rightarrow> RecipeState" where
  "search_and_enhance svc state =
     (if tavily_enabled svc
      then
        (let searched = fst (online_search_node svc state) in
         if online_search_results searched \<noteq> []
         then fst (enhance_with_search_node svc searched)
         else searched)
      else state)"

text \<open>The stage: search and enhancement, tips, compilation; an exception leaves it wrapped.\<close>

definition enhanced_cooking_tips_node ::
  "WorkflowService \<Rightarrow> RecipeState \<Rightarrow> RecipeState result" where
  "enhanced_cooking_tips_node svc state =
     (let enhanced = search_and_enhance svc state;
          tipped = cooking_tips_node svc enhanced
      in case final_recipe_compiler_node svc tipped of
           Inr compiled \<Rightarrow> Inr compiled
         | Inl e \<Rightarrow> Inl (Exception (''Error in enhanced cooking tips: '' @ str_of_error svc e)))"

type_synonym node = "RecipeState \<Rightarrow> RecipeState result"

record StateGraph =
  nodes :: "(string \<times> node) list"
  edges :: "(string \<times> string) list"
  entry_point :: string

definition END :: string where
  "END = ''__end__''"

definition create_workflow_graph :: "WorkflowService \<Rightarrow> StateGraph" where
  "create_workflow_graph svc =
     (if tavily_enabled svc
      then
        \<lparr>nodes =
           [(''combined_recipe_generation'', combined_recipe_generation_node svc),
            (''enhanced_cooking_tips'', enhanced_cooking_tips_node svc),
            (''instruction_completion'', \<lambda>state. Inr (fst (instruction_completion_node svc state)))],
         edges =
           [(''combined_recipe_generation'', ''enhanced_cooking_tips''),
            (''enhanced_cooking_tips'', ''instruction_completion''),
            (''instruction_completion'', END)],
         entry_point = ''combined_recipe_generation''\<rparr>
      else
        \<lparr>nodes =
           [(''combined_recipe_generation'', combined_recipe_generation_node svc),
            (''instruction_completion'', \<lambda>state. Inr (fst (instruction_completion_node svc state)))],
         edges =
           [(''combined_recipe_generation'', ''instruction_completion''),
            (''instruction_completion'', END)],
         entry_point = ''combined_recipe_generation''\<rparr>)"

text \<open>
  Running a compiled graph is the graph library's part. It is modelled as the library
  documents it for a graph of plain edges: the entry node runs on the input, each node
  hands its state to the node its edge names, an exception of a node leaves the run, the
  edge to \<open>END\<close> ends it, and a run longer than the recursion limit of 25 steps is
  stopped with an error. The first component lists the nodes that ran.
\<close>

fun run_graph ::
  "nat \<Rightarrow> StateGraph \<Rightarrow> string \<Rightarrow> RecipeState \<Rightarrow> string list \<times> RecipeState result" where
  "run_graph 0 g name state = ([], Inl (Exception ''GraphRecursionError''))"
| "run_graph (Suc fuel) g name state =
     (if name = END then ([], Inr state)
      else
        (case map_of (nodes g) name of
           None \<Rightarrow> ([], Inl (ValueError (''unknown node '' @ name)))
         | Some run_node \<Rightarrow>
             (case run_node state of
                Inl e \<Rightarrow> ([name], Inl e)
              | Inr state' \<Rightarrow>
                  (case map_of (edges g) name of
                     None \<Rightarrow> ([name], Inr state')
                   | Some successor \<Rightarrow>
                       (case run_graph fuel g successor state' of
                          (visited, outcome) \<Rightarrow> (name # visited, outcome))))))"

definition recursion_limit :: nat where
  "recursion_limit = 25"

definition invoke :: "StateGraph \<Rightarrow> RecipeState \<Rightarrow> string list \<times> RecipeState result" where
  "invoke g initial_state = run_graph recursion_limit g (entry_point g) initial_state"

text \<open>
  \<^verbatim>\<open>execute_workflow\<close>: the result of the graph, or the initial state with the error
  message when the run raised (the nodes work on the state the library hands them, so
  the caller's initial state is as it was passed in). \<open>stages_executed\<close> is the list of
  nodes that ran.
\<close>

definition execute_workflow :: "WorkflowService \<Rightarrow> RecipeState \<Rightarrow> RecipeState" where
  "execute_workflow svc initial_state =
     (case snd (invoke (create_workflow_graph svc) initial_state) of
        Inr terminal \<Rightarrow> terminal
      | Inl e \<Rightarrow> initial_state\<lparr>error_message := ''Workflow failed: '' @ str_of_error svc e\<rparr>)"

definition stages_executed :: "WorkflowService \<Rightarrow> RecipeState \<Rightarrow> string list" where
  "stages_executed svc initial_state = fst (invoke (create_workflow_graph svc) initial_state)"

section \<open>Reference functions for the properties\<close>

text \<open>
  Dropping repeats in the words of the specification: the first entry is kept and taken
  out of what follows, so every string stays at the place of its first occurrence.
\<close>

fun drop_repeats :: "string list \<Rightarrow> string list" where
  "drop_repeats [] = []"
| "drop_repeats (x # xs) = x # filter (\<lambda>y. y \<noteq> x) (drop_repeats xs)"

text \<open>The strings among the items of a parsed list.\<close>

fun string_items :: "json list \<Rightarrow> string list" where
  "string_items [] = []"
| "string_items (JStr s # rest) = s # string_items rest"
| "string_items (x # rest) = string_items rest"

section \<open>Example requests and services\<close>

text \<open>The initial state as app.py builds it from a validated request.\<close>

definition initial_state ::
  "string list \<Rightarrow> string list \<Rightarrow> string list \<Rightarrow> string \<Rightarrow> string \<Rightarrow> RecipeState" where
  "initial_state processed_ingredients appliances dietary cuisine skill =
     \<lparr>ingredients = processed_ingredients,
      appliance = (case appliances of [] \<Rightarrow> ''Oven'' | a # rest \<Rightarrow> a),
      available_appliances = appliances,
      dietary_restrictions = dietary,
      cuisine_preference = cuisine,
      skill_level = skill,
      parsed_ingredients = [],
      recipe_suggestions = [],
      selected_recipe = JDict [],
      alternative_recipes = [],
      user_selected_alternative = None,
      nutrition_info = JDict [],
      shopping_list = JList [],
      cooking_tips = [],
      final_recipe = JDict [],
      online_search_results = [],
      search_enhanced = False,
      search_enhancement_complete = False,
      verification_result = None,
      processing_step = [],
      error_message = []\<rparr>"

definition example_request :: RecipeState where
  "example_request =
     initial_state [''chicken'', ''rice'', ''broccoli''] [''Oven'', ''Stovetop''] [] ''Any'' ''Beginner''"

definition failing_service :: WorkflowService where
  "failing_service =
     \<lparr>tavily_api_key = None,
      combined_reply = LlmRaises (Exception ''Request timed out''),
      tavily_search = (\<lambda>i query max_results. SearchRaises (Exception ''Connection refused'')),
      enhance_reply = LlmRaises (Exception ''Request timed out''),
      tips_reply = LlmRaises (Exception ''Request timed out''),
      compile_reply = Inl (Exception ''Request timed out''),
      completion_reply = LlmRaises (Exception ''Request timed out''),
      json_loads = (\<lambda>text. None),
      py_str = (\<lambda>v. ''<value>''),
      builtin_text = (\<lambda>e. ''<error>'')\<rparr>"

definition enhancing_service :: WorkflowService where
  \<open>enhancing_service =
     failing_service
      \<lparr>tavily_api_key := Some ''tvly-0123456789'',
       enhance_reply := LlmContent ''["B", "C", "D"]'',
       json_loads := (\<lambda>text. if text = ''["B", "C", "D"]''
                             then Some (JList [JStr ''B'', JStr ''C'', JStr ''D''])
                             else None)\<rparr>\<close>

definition searched_state :: RecipeState where
  "searched_state =
     example_request
      \<lparr>selected_recipe := JDict [(''name'', JStr ''Chicken rice bowl'')],
       cooking_tips := [''A'', ''B''],
       online_search_results :=
         [JDict [(''title'', JStr ''Rice basics''), (''content'', JStr ''Rinse the rice first.''),
                 (''url'', JStr ''https://example.org/rice''),
                 (''query'', JStr ''Chicken rice bowl recipe cooking tips best practices'')]],
       search_enhanced := True\<rparr>"


definition long_steps :: "string list" where
  "long_steps =
     [''Step 1: wash, chop, and season the chicken for at least ten minutes before searing'',
      ''Step 2: sear on medium-high heat for six minutes per side'',
      ''Step 3: rest for five minutes before slicing and serving'']"

definition listy_reply_text :: string where
  \<open>listy_reply_text =
     ''{"recipe": {"name": "Chicken rice bowl", "appliance_used": ["Oven", "Stovetop"], ''
     @ ''"ingredients": ["2 chicken breasts", "1 cup rice", "1 head broccoli"], ''
     @ ''"instructions": ["Step 1: wash, chop, and season the chicken for at least ten minutes before searing", ''
     @ ''"Step 2: sear on medium-high heat for six minutes per side", ''
     @ ''"Step 3: rest for five minutes before slicing and serving"]}, ''
     @ ''"nutrition": {"calories_per_serving": 350}, "shopping_list": []}''\<close>

definition listy_recipe :: json where
  "listy_recipe =
     JDict [(''name'', JStr ''Chicken rice bowl''),
            (''appliance_used'', JList [JStr ''Oven'', JStr ''Stovetop'']),
            (''ingredients'', JList [JStr ''2 chicken breasts'', JStr ''1 cup rice'', JStr ''1 head broccoli'']),
            (''instructions'', JList (map JStr long_steps))]"

definition listy_payload :: json where
  "listy_payload =
     JDict [(''recipe'', listy_recipe),
            (''nutrition'', JDict [(''calories_per_serving'', JInt 350)]),
            (''shopping_list'', JList [])]"

definition listy_service :: WorkflowService where
  "listy_service =
     failing_service
      \<lparr>combined_reply := LlmContent listy_reply_text,
       json_loads := (\<lambda>text. if text = listy_reply_text then Some listy_payload else None)\<rparr>"

definition keyed_service :: WorkflowService where
  "keyed_service = failing_service\<lparr>tavily_api_key := Some ''tvly-0123456789''\<rparr>"

definition revoked_service :: WorkflowService where
  "revoked_service =
     keyed_service
      \<lparr>tavily_search := (\<lambda>i query max_results. SearchRaises (Exception ''401 Unauthorized: invalid API key''))\<rparr>"

definition drafted_state :: RecipeState where
  "drafted_state =
     example_request\<lparr>parsed_ingredients := [''chicken'', ''rice'', ''broccoli''],
                     selected_recipe := listy_recipe,
                     nutrition_info := JDict [(''calories_per_serving'', JInt 350)],
                     shopping_list := JList [],
                     final_recipe := listy_recipe\<rparr>"

definition latched_state :: RecipeState where
  "latched_state =
     searched_state\<lparr>cooking_tips := [''A'', ''B'', ''C'', ''D''],
                    processing_step := ''search_enhancement_complete'',
                    search_enhancement_complete := True\<rparr>"

definition terse_recipe :: json where
  "terse_recipe =
     JDict [(''name'', JStr ''Chicken rice bowl''),
            (''ingredients'', JList [JStr ''2 chicken breasts'', JStr ''1 cup rice'']),
            (''instructions'', JList [JStr ''ok''])]"

definition terse_state :: RecipeState where
  "terse_state = drafted_state\<lparr>selected_recipe := terse_recipe, final_recipe := terse_recipe\<rparr>"




definition three_steps_text :: string where
  \<open>three_steps_text =
     ''{"complete_instructions": [''
     @ ''"Step 1: wash, chop, and season the chicken for at least ten minutes before searing", ''
     @ ''"Step 2: sear on medium-high heat for six minutes per side", ''
     @ ''"Step 3: rest for five minutes before slicing and serving"]}''\<close>




definition query_one :: string where
  "query_one = ''Chicken rice bowl recipe cooking tips best practices''"

definition query_two :: string where
  "query_two = ''cooking techniques chicken rice broccoli Any cuisine''"

definition query_three :: string where
  "query_three = ''cooking tips Oven Stovetop techniques professional chef''"

definition rice_response :: json where
  "rice_response =
     JDict [(''query'', JStr query_one),
            (''results'', JList
              [JDict [(''title'', JStr ''Rice basics''),
                      (''url'', JStr ''https://example.org/rice''),
                      (''content'', JStr ''Rinse the rice first.''),
                      (''score'', JFloat 0.9)]])]"

definition rice_result :: json where
  "rice_result =
     JDict [(''title'', JStr ''Rice basics''),
            (''content'', JStr ''Rinse the rice first.''),
            (''url'', JStr ''https://example.org/rice''),
            (''query'', JStr query_one)]"

definition expiring_service :: WorkflowService where
  "expiring_service =
     keyed_service
      \<lparr>tavily_search := (\<lambda>i query max_results.
          if i = 0 then SearchReturns rice_response
          else SearchRaises (Exception ''401 Unauthorized: invalid API key''))\<rparr>"

definition compiled_recipe :: json where
  "compiled_recipe =
     JDict [(''name'', JStr ''Chicken rice bowl''),
            (''description'', JStr ''Seared chicken over rice with broccoli''),
            (''ingredients'', JList [JStr ''2 chicken breasts'', JStr ''1 cup rice'', JStr ''1 head broccoli'']),
            (''instructions'', JList (map JStr long_steps)),
            (''appliance_used'', JList [JStr ''Oven'', JStr ''Stovetop'']),
            (''tips'', JList [JStr ''Preheat the oven'', JStr ''Rest the chicken''])]"

definition tips_text :: string where
  "tips_text = ''1. Preheat the oven'' @ [CHR 0x0A, CHR 0x0A] @ '' 2. Rest the chicken '' @ [CHR 0x0A]"

definition full_service :: WorkflowService where
  \<open>full_service =
     keyed_service
      \<lparr>combined_reply := LlmContent listy_reply_text,
       tavily_search := (\<lambda>i query max_results.
          if i = 0 then SearchReturns rice_response
          else SearchRaises (Exception ''Connection refused'')),
       enhance_reply := LlmContent ''["B", "C", "D"]'',
       tips_reply := LlmContent tips_text,
       compile_reply := Inr compiled_recipe,
       json_loads := (\<lambda>text.
          if text = listy_reply_text then Some listy_payload
          else if text = ''["B", "C", "D"]'' then Some (JList [JStr ''B'', JStr ''C'', JStr ''D''])
          else None)\<rparr>\<close>

definition hollow_reply_text :: string where
  \<open>hollow_reply_text = ''{"recipe": {}, "nutrition": {}, "shopping_list": []}''\<close>

definition hollow_service :: WorkflowService where
  "hollow_service =
     failing_service
      \<lparr>combined_reply := LlmContent hollow_reply_text,
       completion_reply := LlmContent three_steps_text,
       json_loads := (\<lambda>text.
          if text = hollow_reply_text
          then Some (JDict [(''recipe'', JDict []), (''nutrition'', JDict []), (''shopping_list'', JList [])])
          else if text = three_steps_text
          then Some (JDict [(''complete_instructions'', JList (map JStr long_steps))])
          else None)\<rparr>"

definition hollow_state :: RecipeState where
  "hollow_state = example_request\<lparr>parsed_ingredients := [''chicken'', ''rice'', ''broccoli'']\<rparr>"

section \<open>The merge of tips (enhance_with_search_node)\<close>

lemma string_items_append: "string_items (xs @ ys) = string_items xs @ string_items ys"
  by (induction xs rule: string_items.induct) auto

lemma string_items_map_JStr: "string_items (map JStr ts) = ts"
  by (induction ts) auto

lemma filter_seen_absorbs:
  "s \<in> seen \<Longrightarrow> filter (\<lambda>y. y \<noteq> s \<and> y \<notin> seen) ys = filter (\<lambda>y. y \<notin> seen) ys"
  by (induction ys) auto

lemma unique_loop_drop_repeats:
  "unique_loop items acc seen =
     acc @ filter (\<lambda>y. y \<notin> seen) (drop_repeats (string_items items))"
proof (induction items arbitrary: acc seen rule: string_items.induct)
  case (2 s rest)
  show ?case
    using 2[of "acc @ [s]" "insert s seen"] 2[of acc seen]
    by (simp add: filter_seen_absorbs)
qed simp_all

lemma distinct_drop_repeats: "distinct (drop_repeats xs)"
  by (induction xs) auto

lemma drop_repeats_distinct: "distinct xs \<Longrightarrow> drop_repeats xs = xs"
proof (induction xs)
  case Nil
  then show ?case by simp
next
  case (Cons x xs)
  then have "filter (\<lambda>y. y \<noteq> x) xs = xs"
    by (auto intro: filter_True)
  with Cons show ?case by simp
qed

lemma set_drop_repeats: "set (drop_repeats xs) = set xs"
  by (induction xs) auto

lemma merge_tips_eq:
  "merge_tips current new = take 8 (drop_repeats (current @ string_items new))"
  by (simp add: merge_tips_def unique_loop_drop_repeats string_items_append string_items_map_JStr)

lemma enhance_on_parsed_list:
  assumes call: "snd (enhance_with_search_node svc s) = [EnhanceTipsCall]"
    and reply: "enhance_reply svc = LlmContent c"
    and parsed: "json_loads svc c = Some (JList new)"
  shows "fst (enhance_with_search_node svc s) =
           s\<lparr>processing_step := ''search_enhancement'',
             cooking_tips := merge_tips (cooking_tips s) new,
             processing_step := ''search_enhancement_complete'',
             search_enhancement_complete := True\<rparr>"
proof (cases "search_enhancement_complete s")
  case True
  with call show ?thesis by (simp add: enhance_with_search_node_def)
next
  case latch: False
  show ?thesis
  proof (cases "search_enhanced s \<and> online_search_results s \<noteq> []")
    case False
    with call latch show ?thesis by (simp add: enhance_with_search_node_def)
  next
    case results: True
    show ?thesis
    proof (cases "build_search_content svc (online_search_results s)")
      case (Inl e)
      with call latch results show ?thesis by (simp add: enhance_with_search_node_def)
    next
      case (Inr sc)
      show ?thesis
      proof (cases "sc = []")
        case True
        with call latch results Inr show ?thesis by (simp add: enhance_with_search_node_def)
      next
        case content: False
        show ?thesis
        proof (cases "py_get (selected_recipe s) ''name'' (JStr ''Unknown Recipe'')")
          case (Inl e)
          with call latch results Inr content show ?thesis
            by (simp add: enhance_with_search_node_def)
        next
          case name: (Inr nm)
          with latch results Inr content reply parsed show ?thesis
            by (simp add: enhance_with_search_node_def)
        qed
      qed
    qed
  qed
qed

text \<open>
  Claim C4. When the enhancement call is made and its reply parses as a JSON list, the
  tips stored are the tips the state had followed by the new ones, each string kept at
  its first occurrence only, cut to 8 entries. (An item of the reply that is no string is
  skipped.) The stored list has no repeats and at most 8 entries; when the two lists
  together have no repeats and at most 8 entries, it is the one followed by the other.
\<close>

theorem enhance_merges_tips:
  assumes "snd (enhance_with_search_node svc s) = [EnhanceTipsCall]"
    and "enhance_reply svc = LlmContent c"
    and "json_loads svc c = Some (JList new)"
  shows "cooking_tips (fst (enhance_with_search_node svc s)) =
           take 8 (drop_repeats (cooking_tips s @ string_items new))
         \<and> distinct (cooking_tips (fst (enhance_with_search_node svc s)))
         \<and> length (cooking_tips (fst (enhance_with_search_node svc s))) \<le> 8
         \<and> (distinct (cooking_tips s @ string_items new)
              \<and> length (cooking_tips s @ string_items new) \<le> 8 \<longrightarrow>
            cooking_tips (fst (enhance_with_search_node svc s)) = cooking_tips s @ string_items new)"
proof -
  have eq: "cooking_tips (fst (enhance_with_search_node svc s)) =
           take 8 (drop_repeats (cooking_tips s @ string_items new))"
    using enhance_on_parsed_list[OF assms] by (simp add: merge_tips_eq)
  moreover have "distinct (take 8 (drop_repeats (cooking_tips s @ string_items new)))"
    by (rule distinct_take) (rule distinct_drop_repeats)
  moreover have "take 8 (drop_repeats (cooking_tips s @ string_items new)) =
        cooking_tips s @ string_items new"
    if "distinct (cooking_tips s @ string_items new)"
      and "length (cooking_tips s @ string_items new) \<le> 8"
    using that by (simp only: drop_repeats_distinct take_all)
  ultimately show ?thesis by simp
qed

text \<open>The example of the specification: [A, B] merged with [B, C, D] is [A, B, C, D].\<close>

theorem enhance_merges_tips_witness:
  \<open>cooking_tips searched_state = [''A'', ''B'']
   \<and> json_loads enhancing_service ''["B", "C", "D"]'' = Some (JList [JStr ''B'', JStr ''C'', JStr ''D''])
   \<and> cooking_tips (fst (enhance_with_search_node enhancing_service searched_state)) =
       [''A'', ''B'', ''C'', ''D'']
   \<and> cooking_tips (fst (enhance_with_search_node enhancing_service
         (searched_state\<lparr>cooking_tips := [''A'']\<rparr>))) = [''A''] @ [''B'', ''C'', ''D'']\<close>
proof -
  have call: "snd (enhance_with_search_node enhancing_service searched_state) = [EnhanceTipsCall]"
    by (simp add: enhance_with_search_node_def enhancing_service_def searched_state_def
      failing_service_def example_request_def initial_state_def dict_get_def format_value_def)
  have call': "snd (enhance_with_search_node enhancing_service
      (searched_state\<lparr>cooking_tips := [''A'']\<rparr>)) = [EnhanceTipsCall]"
    by (simp add: enhance_with_search_node_def enhancing_service_def searched_state_def
      failing_service_def example_request_def initial_state_def dict_get_def format_value_def)
  have reply: \<open>enhance_reply enhancing_service = LlmContent ''["B", "C", "D"]''\<close>
    by (simp add: enhancing_service_def failing_service_def)
  have parsed: \<open>json_loads enhancing_service ''["B", "C", "D"]'' =
      Some (JList [JStr ''B'', JStr ''C'', JStr ''D''])\<close>
    by (simp add: enhancing_service_def failing_service_def)
  have tips: "cooking_tips searched_state = [''A'', ''B'']"
    by (simp add: searched_state_def)
  from enhance_merges_tips[OF call reply parsed] tips
  have first: "cooking_tips (fst (enhance_with_search_node enhancing_service searched_state)) =
       [''A'', ''B'', ''C'', ''D'']"
    by simp
  from enhance_merges_tips[OF call' reply parsed]
  have second: "cooking_tips (fst (enhance_with_search_node enhancing_service
         (searched_state\<lparr>cooking_tips := [''A'']\<rparr>))) = [''A''] @ [''B'', ''C'', ''D'']"
    by simp
  from tips parsed first second show ?thesis
    by simp
qed

section \<open>The draft stage\<close>


lemma combined_cases:
  "combined_recipe_generation_node svc s =
     (let st = s\<lparr>parsed_ingredients := parse_ingredients (ingredients s)\<rparr>
      in case store_generated svc st of
           Inr t \<Rightarrow> Inr t
         | Inl e \<Rightarrow> Inr (use_fallback (ingredients s) st))"
  by (simp add: combined_recipe_generation_node_def Let_def)


text \<open>
  Claim C5. The draft stage returns a state for every request and every behaviour of
  the model. When the generation call raises, that state is the fallback draft, a
  function of the request alone: its ingredients are the request's ingredients, each
  with the bullet before it, and its total time is its preparation time plus its cooking
  time.
\<close>

theorem draft_fallback:
  "(\<exists>d. combined_recipe_generation_node svc s = Inr d)
   \<and> (\<forall>e. combined_reply svc = LlmRaises e \<longrightarrow>
        (\<exists>d fb. combined_recipe_generation_node svc s = Inr d
           \<and> d = use_fallback (ingredients s) (s\<lparr>parsed_ingredients := parse_ingredients (ingredients s)\<rparr>)
           \<and> selected_recipe d = JDict fb \<and> final_recipe d = JDict fb
           \<and> dict_get fb ''ingredients'' JNull = JList (map (\<lambda>i. JStr (bullet @ i)) (ingredients s))
           \<and> (\<exists>p c. dict_get fb ''prep_time'' JNull = JInt p \<and> dict_get fb ''cook_time'' JNull = JInt c
                 \<and> dict_get fb ''total_time'' JNull = JInt (p + c))))"
proof (intro conjI allI impI)
  show "\<exists>d. combined_recipe_generation_node svc s = Inr d"
    by (simp add: combined_cases Let_def split: sum.split)
next
  fix e
  assume raises: "combined_reply svc = LlmRaises e"
  let ?st = "s\<lparr>parsed_ingredients := parse_ingredients (ingredients s)\<rparr>"
  have "\<exists>x. store_generated svc ?st = Inl x"
    using raises
    by (simp add: store_generated_def generate_combined_recipe_def generate_json_response_def)
  then have node: "combined_recipe_generation_node svc s = Inr (use_fallback (ingredients s) ?st)"
    by (auto simp: combined_cases Let_def)
  show "\<exists>d fb. combined_recipe_generation_node svc s = Inr d
           \<and> d = use_fallback (ingredients s) ?st
           \<and> selected_recipe d = JDict fb \<and> final_recipe d = JDict fb
           \<and> dict_get fb ''ingredients'' JNull = JList (map (\<lambda>i. JStr (bullet @ i)) (ingredients s))
           \<and> (\<exists>p c. dict_get fb ''prep_time'' JNull = JInt p \<and> dict_get fb ''cook_time'' JNull = JInt c
                 \<and> dict_get fb ''total_time'' JNull = JInt (p + c))"
    unfolding node
    by (simp add: use_fallback_def create_fallback_recipe_def dict_get_def Let_def)
qed

lemma parse_example: "parse_ingredients [''chicken'', ''rice'', ''broccoli''] = [''chicken'', ''rice'', ''broccoli'']"
  by (simp add: parse_ingredients_def py_strip_def py_isspace_def)

lemma listy_draft:
  "combined_recipe_generation_node listy_service example_request =
     Inr (example_request\<lparr>parsed_ingredients := [''chicken'', ''rice'', ''broccoli''],
                          selected_recipe := listy_recipe,
                          nutrition_info := JDict [(''calories_per_serving'', JInt 350)],
                          shopping_list := JList [],
                          final_recipe := listy_recipe\<rparr>)"
  by (simp add: combined_cases store_generated_def generate_combined_recipe_def
      generate_json_response_def validate_recipe_data_def required_keys_def
      listy_service_def failing_service_def listy_payload_def parse_example
      example_request_def initial_state_def)

lemma failing_draft:
  "combined_recipe_generation_node failing_service example_request =
     Inr (use_fallback [''chicken'', ''rice'', ''broccoli'']
           (example_request\<lparr>parsed_ingredients := [''chicken'', ''rice'', ''broccoli'']\<rparr>))"
  by (simp add: combined_cases store_generated_def generate_combined_recipe_def
      generate_json_response_def failing_service_def parse_example
      example_request_def initial_state_def)

text \<open>With the example request: three bulleted ingredients, and 45 = 15 + 30 minutes.\<close>

theorem draft_fallback_witness:
  "combined_reply failing_service = LlmRaises (Exception ''Request timed out'')
   \<and> (\<exists>d fb. combined_recipe_generation_node failing_service example_request = Inr d
        \<and> selected_recipe d = JDict fb \<and> final_recipe d = JDict fb
        \<and> dict_get fb ''ingredients'' JNull =
            JList [JStr (bullet @ ''chicken''), JStr (bullet @ ''rice''), JStr (bullet @ ''broccoli'')]
        \<and> (\<exists>p c. dict_get fb ''prep_time'' JNull = JInt p \<and> dict_get fb ''cook_time'' JNull = JInt c
                 \<and> dict_get fb ''total_time'' JNull = JInt (p + c)))
   \<and> (\<exists>d. combined_recipe_generation_node failing_service example_request = Inr d
        \<and> py_get (final_recipe d) ''prep_time'' JNull = Inr (JInt 15)
        \<and> py_get (final_recipe d) ''cook_time'' JNull = Inr (JInt 30)
        \<and> py_get (final_recipe d) ''total_time'' JNull = Inr (JInt 45))"
proof (intro conjI)
  show raises: "combined_reply failing_service = LlmRaises (Exception ''Request timed out'')"
    by (simp add: failing_service_def)
  have ings: "ingredients example_request = [''chicken'', ''rice'', ''broccoli'']"
    by (simp add: example_request_def initial_state_def)
  show "\<exists>d fb. combined_recipe_generation_node failing_service example_request = Inr d
        \<and> selected_recipe d = JDict fb \<and> final_recipe d = JDict fb
        \<and> dict_get fb ''ingredients'' JNull =
            JList [JStr (bullet @ ''chicken''), JStr (bullet @ ''rice''), JStr (bullet @ ''broccoli'')]
        \<and> (\<exists>p c. dict_get fb ''prep_time'' JNull = JInt p \<and> dict_get fb ''cook_time'' JNull = JInt c
                 \<and> dict_get fb ''total_time'' JNull = JInt (p + c))"
    using draft_fallback[of failing_service example_request] raises ings by simp
  show "\<exists>d. combined_recipe_generation_node failing_service example_request = Inr d
        \<and> py_get (final_recipe d) ''prep_time'' JNull = Inr (JInt 15)
        \<and> py_get (final_recipe d) ''cook_time'' JNull = Inr (JInt 30)
        \<and> py_get (final_recipe d) ''total_time'' JNull = Inr (JInt 45)"
    by (simp add: failing_draft use_fallback_def create_fallback_recipe_def dict_get_def)
qed


section \<open>The stages a run executes\<close>

lemma combined_returns: "\<exists>d. combined_recipe_generation_node svc s = Inr d"
  by (simp add: combined_cases Let_def split: sum.split)

lemma run_without_key:
  assumes "tavily_api_key svc = None"
    and "combined_recipe_generation_node svc s = Inr d"
  shows "invoke (create_workflow_graph svc) s =
           ([''combined_recipe_generation'', ''instruction_completion''],
            Inr (fst (instruction_completion_node svc d)))"
  using assms
  by (simp add: invoke_def create_workflow_graph_def tavily_enabled_def recursion_limit_def
      END_def eval_nat_numeral)

lemma run_with_key_completed:
  assumes "tavily_api_key svc = Some k"
    and "combined_recipe_generation_node svc s = Inr d"
    and "enhanced_cooking_tips_node svc d = Inr t"
  shows "invoke (create_workflow_graph svc) s =
           ([''combined_recipe_generation'', ''enhanced_cooking_tips'', ''instruction_completion''],
            Inr (fst (instruction_completion_node svc t)))"
  using assms
  by (simp add: invoke_def create_workflow_graph_def tavily_enabled_def recursion_limit_def
      END_def eval_nat_numeral)

lemma run_with_key_raised:
  assumes "tavily_api_key svc = Some k"
    and "combined_recipe_generation_node svc s = Inr d"
    and "enhanced_cooking_tips_node svc d = Inl e"
  shows "invoke (create_workflow_graph svc) s =
           ([''combined_recipe_generation'', ''enhanced_cooking_tips''], Inl e)"
  using assms
  by (simp add: invoke_def create_workflow_graph_def tavily_enabled_def recursion_limit_def
      END_def eval_nat_numeral)

text \<open>
  Claim C1, as the code has it. Without a search key a run executes the draft stage and
  then the completeness audit, nothing else: tip generation and compilation are steps of
  the stage \<open>enhanced_cooking_tips\<close>, and the graph holds that stage only when a key is
  configured. With a key, and once that stage completes, a run executes the draft stage,
  the stage \<open>enhanced_cooking_tips\<close> and the completeness audit.
\<close>

theorem stages_by_configuration:
  "(tavily_api_key svc = None \<longrightarrow>
      stages_executed svc s = [''combined_recipe_generation'', ''instruction_completion''])
   \<and> (\<forall>d t. tavily_api_key svc \<noteq> None
         \<and> combined_recipe_generation_node svc s = Inr d
         \<and> enhanced_cooking_tips_node svc d = Inr t \<longrightarrow>
      stages_executed svc s =
        [''combined_recipe_generation'', ''enhanced_cooking_tips'', ''instruction_completion''])
   \<and> (map_of (nodes (create_workflow_graph svc)) ''enhanced_cooking_tips'' \<noteq> None
        \<longleftrightarrow> tavily_api_key svc \<noteq> None)"
proof (intro conjI allI impI)
  assume none: "tavily_api_key svc = None"
  obtain d where "combined_recipe_generation_node svc s = Inr d"
    using combined_returns by blast
  from run_without_key[OF none this]
  show "stages_executed svc s = [''combined_recipe_generation'', ''instruction_completion'']"
    by (simp add: stages_executed_def)
next
  fix d t
  assume h: "tavily_api_key svc \<noteq> None
         \<and> combined_recipe_generation_node svc s = Inr d
         \<and> enhanced_cooking_tips_node svc d = Inr t"
  then obtain k where "tavily_api_key svc = Some k" by auto
  from run_with_key_completed[OF this] h
  show "stages_executed svc s =
        [''combined_recipe_generation'', ''enhanced_cooking_tips'', ''instruction_completion'']"
    by (simp add: stages_executed_def)
next
  show "map_of (nodes (create_workflow_graph svc)) ''enhanced_cooking_tips'' \<noteq> None
        \<longleftrightarrow> tavily_api_key svc \<noteq> None"
    by (simp add: create_workflow_graph_def tavily_enabled_def)
qed

text \<open>
  Claim C1 as stated fails without a search key: the draft stage completes and the audit
  runs, but no stage generates tips or compiles, and the tips of the terminal state are
  still empty.
\<close>

theorem tips_stage_skipped_without_key:
  "tavily_api_key failing_service = None
   \<and> stages_executed failing_service example_request =
       [''combined_recipe_generation'', ''instruction_completion'']
   \<and> cooking_tips (execute_workflow failing_service example_request) = []"
proof -
  have none: "tavily_api_key failing_service = None"
    by (simp add: failing_service_def)
  have inv: "invoke (create_workflow_graph failing_service) example_request =
           ([''combined_recipe_generation'', ''instruction_completion''],
            Inr (fst (instruction_completion_node failing_service
               (use_fallback [''chicken'', ''rice'', ''broccoli'']
           (example_request\<lparr>parsed_ingredients := [''chicken'', ''rice'', ''broccoli'']\<rparr>)))))"
    by (rule run_without_key[OF none failing_draft])
  have tips: "cooking_tips (fst (instruction_completion_node svc st)) = cooking_tips st" for svc st
    by (simp add: instruction_completion_node_def apply_completion_def Let_def
        split: sum.split llm_reply.split option.split)
  show ?thesis
    using none inv
    by (simp add: stages_executed_def execute_workflow_def tips use_fallback_def Let_def
        example_request_def initial_state_def)
qed

text \<open>
  The stage \<open>enhanced_cooking_tips\<close> can raise: the handler of the compiler node indexes
  each parsed ingredient, a string, with \<^verbatim>\<open>'name'\<close>, so it raises whenever the chain
  failed and an ingredient was parsed.
\<close>

lemma compile_fallback_raises:
  assumes "parsed_ingredients s \<noteq> []"
  shows "\<exists>e. compile_fallback svc s = Inl e"
proof -
  obtain ing rest where "parsed_ingredients s = ing # rest"
    using assms by (cases "parsed_ingredients s") auto
  then have "bullet_names svc (parsed_ingredients s) = Inl TypeError"
    by (simp add: str_getitem_def)
  then show ?thesis
    by (simp add: compile_fallback_def Let_def split: sum.split)
qed

lemma enhanced_stage_order:
  "enhanced_cooking_tips_node svc s =
     (case final_recipe_compiler_node svc (cooking_tips_node svc (search_and_enhance svc s)) of
        Inr compiled \<Rightarrow> Inr compiled
      | Inl e \<Rightarrow> Inl (Exception (''Error in enhanced cooking tips: '' @ str_of_error svc e)))"
  by (simp add: enhanced_cooking_tips_node_def Let_def)

lemma draft_kept_by_search:
  "selected_recipe (fst (online_search_node svc s)) = selected_recipe s"
  "parsed_ingredients (fst (online_search_node svc s)) = parsed_ingredients s"
  by (simp_all add: online_search_node_def Let_def split: sum.split prod.split)

lemma draft_kept_by_enhance:
  "selected_recipe (fst (enhance_with_search_node svc s)) = selected_recipe s"
  "parsed_ingredients (fst (enhance_with_search_node svc s)) = parsed_ingredients s"
  by (simp_all add: enhance_with_search_node_def Let_def
      split: sum.split llm_reply.split option.split json.split)

lemma draft_kept_by_tips:
  "selected_recipe (cooking_tips_node svc s) = selected_recipe s"
  "parsed_ingredients (cooking_tips_node svc s) = parsed_ingredients s"
  by (simp_all add: cooking_tips_node_def Let_def split: llm_reply.split)

lemma draft_kept_by_search_and_enhance:
  "selected_recipe (search_and_enhance svc s) = selected_recipe s"
  "parsed_ingredients (search_and_enhance svc s) = parsed_ingredients s"
  by (simp_all add: search_and_enhance_def Let_def draft_kept_by_search draft_kept_by_enhance)

text \<open>
  So the stage raises, and the audit is not reached, whenever the compilation chain fails
  on a state with a parsed ingredient.
\<close>

lemma enhanced_stage_raises:
  assumes "compile_reply svc = Inl e" and "parsed_ingredients s \<noteq> []"
  shows "\<exists>x. enhanced_cooking_tips_node svc s = Inl x"
proof -
  let ?tipped = "cooking_tips_node svc (search_and_enhance svc s)"
  have "parsed_ingredients (?tipped\<lparr>processing_step := ''final_recipe_compilation''\<rparr>) \<noteq> []"
    using assms(2) by (simp add: draft_kept_by_tips draft_kept_by_search_and_enhance)
  then obtain x where
    "compile_fallback svc (?tipped\<lparr>processing_step := ''final_recipe_compilation''\<rparr>) = Inl x"
    using compile_fallback_raises by blast
  moreover have "compile_recipe svc st = Inl e" for st
    using assms(1) by (simp add: compile_recipe_def)
  ultimately have "final_recipe_compiler_node svc ?tipped = Inl x"
    by (simp add: final_recipe_compiler_node_def Let_def)
  then show ?thesis
    by (simp add: enhanced_stage_order)
qed

section \<open>The enhancement latch\<close>

lemma enhance_latched:
  "search_enhancement_complete s \<Longrightarrow>
     enhance_with_search_node svc s = (s\<lparr>processing_step := ''search_enhancement''\<rparr>, [])"
  by (simp add: enhance_with_search_node_def)

lemma latch_online_search:
  "search_enhancement_complete (fst (online_search_node svc s)) = search_enhancement_complete s"
  by (simp add: online_search_node_def Let_def split: sum.split prod.split)

lemma latch_enhance:
  "search_enhancement_complete s \<Longrightarrow> search_enhancement_complete (fst (enhance_with_search_node svc s))"
  by (simp add: enhance_latched)

lemma latch_cooking_tips:
  "search_enhancement_complete (cooking_tips_node svc s) = search_enhancement_complete s"
  by (simp add: cooking_tips_node_def Let_def split: llm_reply.split)

lemma latch_compile_recipe:
  "compile_recipe svc s = Inr t \<Longrightarrow> search_enhancement_complete t = search_enhancement_complete s"
  by (auto simp: compile_recipe_def split: sum.splits if_splits)

lemma latch_compile_fallback:
  "compile_fallback svc s = Inr t \<Longrightarrow> search_enhancement_complete t = search_enhancement_complete s"
  by (auto simp: compile_fallback_def Let_def split: sum.splits)

lemma latch_compiler:
  "final_recipe_compiler_node svc s = Inr t \<Longrightarrow>
     search_enhancement_complete t = search_enhancement_complete s"
  by (auto simp: final_recipe_compiler_node_def Let_def split: sum.splits
      dest: latch_compile_recipe latch_compile_fallback)

lemma latch_apply_completion:
  "apply_completion svc s recipe instructions content = Inr t \<Longrightarrow>
     search_enhancement_complete t = search_enhancement_complete s"
  by (auto simp: apply_completion_def split: option.splits sum.splits if_splits)

lemma latch_instruction_completion:
  "search_enhancement_complete (fst (instruction_completion_node svc s)) = search_enhancement_complete s"
proof -
  have "search_enhancement_complete t = search_enhancement_complete st"
    if "apply_completion svc st recipe instructions content = Inr t" for st recipe instructions content t
    using that by (rule latch_apply_completion)
  then show ?thesis
    by (simp add: instruction_completion_node_def Let_def
        split: sum.split llm_reply.split)
qed

lemma latch_combined:
  "combined_recipe_generation_node svc s = Inr t \<Longrightarrow>
     search_enhancement_complete t = search_enhancement_complete s"
  by (auto simp: combined_cases Let_def use_fallback_def store_generated_def
      split: sum.splits if_splits)

lemma latch_search_and_enhance:
  "search_enhancement_complete s \<Longrightarrow> search_enhancement_complete (search_and_enhance svc s)"
  by (simp add: search_and_enhance_def Let_def latch_online_search latch_enhance)

lemma latch_enhanced_stage:
  "enhanced_cooking_tips_node svc s = Inr t \<Longrightarrow> search_enhancement_complete s \<Longrightarrow>
     search_enhancement_complete t"
  by (auto simp: enhanced_cooking_tips_node_def Let_def latch_cooking_tips latch_search_and_enhance
      split: sum.splits dest!: latch_compiler)

lemma latch_execute:
  assumes "search_enhancement_complete s"
  shows "search_enhancement_complete (execute_workflow svc s)"
proof -
  obtain d where d: "combined_recipe_generation_node svc s = Inr d"
    using combined_returns by blast
  then have ld: "search_enhancement_complete d"
    using assms latch_combined by blast
  show ?thesis
  proof (cases "tavily_api_key svc")
    case None
    from run_without_key[OF None d] ld show ?thesis
      by (simp add: execute_workflow_def latch_instruction_completion)
  next
    case (Some k)
    show ?thesis
    proof (cases "enhanced_cooking_tips_node svc d")
      case (Inl e)
      from run_with_key_raised[OF Some d Inl] assms show ?thesis
        by (simp add: execute_workflow_def)
    next
      case (Inr t)
      from run_with_key_completed[OF Some d Inr] latch_enhanced_stage[OF Inr ld] show ?thesis
        by (simp add: execute_workflow_def latch_instruction_completion)
    qed
  qed
qed

text \<open>
  Claim C3, as the code has it. On a state whose latch is set, the enhancement node calls
  no model and returns the state with \<open>processing_step\<close> set to
  \<^verbatim>\<open>search_enhancement\<close> and every other field, the tips among them, as it was. No
  node and no run takes a set latch back: it is still set after each of them.
\<close>

theorem enhancement_latch:
  assumes "search_enhancement_complete s"
  shows "enhance_with_search_node svc s = (s\<lparr>processing_step := ''search_enhancement''\<rparr>, [])
    \<and> cooking_tips (fst (enhance_with_search_node svc s)) = cooking_tips s
    \<and> search_enhancement_complete (fst (enhance_with_search_node svc s))
    \<and> search_enhancement_complete (fst (online_search_node svc s))
    \<and> search_enhancement_complete (cooking_tips_node svc s)
    \<and> (\<forall>t. final_recipe_compiler_node svc s = Inr t \<longrightarrow> search_enhancement_complete t)
    \<and> (\<forall>t. enhanced_cooking_tips_node svc s = Inr t \<longrightarrow> search_enhancement_complete t)
    \<and> (\<forall>t. combined_recipe_generation_node svc s = Inr t \<longrightarrow> search_enhancement_complete t)
    \<and> search_enhancement_complete (fst (instruction_completion_node svc s))
    \<and> search_enhancement_complete (execute_workflow svc s)"
  using assms
  by (auto simp: enhance_latched latch_online_search latch_cooking_tips latch_instruction_completion
      latch_execute dest: latch_compiler latch_enhanced_stage latch_combined)

text \<open>
  Claim C3 as stated fails: the state right after a successful enhancement has the step
  \<^verbatim>\<open>search_enhancement_complete\<close>, and a second invocation does not return it unchanged.
\<close>

theorem enhancement_latch_counterexample:
  "search_enhancement_complete latched_state
   \<and> fst (enhance_with_search_node enhancing_service latched_state) \<noteq> latched_state"
proof -
  have l: "search_enhancement_complete latched_state"
    by (simp add: latched_state_def)
  have after: "processing_step (fst (enhance_with_search_node enhancing_service latched_state)) = ''search_enhancement''"
    by (simp add: enhance_latched[OF l])
  have before: "processing_step latched_state = ''search_enhancement_complete''"
    by (simp add: latched_state_def)
  have "fst (enhance_with_search_node enhancing_service latched_state) \<noteq> latched_state"
  proof
    assume "fst (enhance_with_search_node enhancing_service latched_state) = latched_state"
    then have "processing_step (fst (enhance_with_search_node enhancing_service latched_state))
        = processing_step latched_state"
      by simp
    with after before show False by simp
  qed
  with l show ?thesis by simp
qed

text \<open>On the latched example: no call, the four tips kept, the latch still set after a run.\<close>

theorem enhancement_latch_witness:
  "search_enhancement_complete latched_state
   \<and> enhance_with_search_node enhancing_service latched_state =
       (latched_state\<lparr>processing_step := ''search_enhancement''\<rparr>, [])
   \<and> cooking_tips (fst (enhance_with_search_node enhancing_service latched_state)) =
       [''A'', ''B'', ''C'', ''D'']
   \<and> (\<exists>t. final_recipe_compiler_node enhancing_service latched_state = Inr t
         \<and> search_enhancement_complete t)
   \<and> (\<exists>t. enhanced_cooking_tips_node enhancing_service latched_state = Inr t
         \<and> search_enhancement_complete t)
   \<and> (\<exists>t. combined_recipe_generation_node enhancing_service latched_state = Inr t
         \<and> search_enhancement_complete t)
   \<and> search_enhancement_complete (execute_workflow enhancing_service latched_state)"
proof -
  have latch: "search_enhancement_complete latched_state"
    by (simp add: latched_state_def)
  have tips: "cooking_tips latched_state = [''A'', ''B'', ''C'', ''D'']"
    by (simp add: latched_state_def)
  note T = enhancement_latch[OF latch, of enhancing_service]
  have "\<exists>t. compile_fallback enhancing_service st = Inr t"
    if "selected_recipe st = JDict [(''name'', JStr ''Chicken rice bowl'')]"
      and "parsed_ingredients st = []" for st
    using that by (simp add: compile_fallback_def dict_get_def Let_def)
  moreover have "compile_recipe enhancing_service st = Inl (Exception ''Request timed out'')" for st
    by (simp add: compile_recipe_def enhancing_service_def failing_service_def)
  ultimately have compiles: "\<exists>t. final_recipe_compiler_node enhancing_service st = Inr t"
    if "selected_recipe st = JDict [(''name'', JStr ''Chicken rice bowl'')]"
      and "parsed_ingredients st = []" for st
    using that by (simp add: final_recipe_compiler_node_def Let_def)
  have shape: "selected_recipe latched_state = JDict [(''name'', JStr ''Chicken rice bowl'')]"
    "parsed_ingredients latched_state = []"
    by (simp_all add: latched_state_def searched_state_def example_request_def initial_state_def)
  obtain t1 where t1: "final_recipe_compiler_node enhancing_service latched_state = Inr t1"
    using compiles[OF shape] by blast
  have stage_input:
    "selected_recipe (cooking_tips_node enhancing_service
        (search_and_enhance enhancing_service latched_state)) =
       JDict [(''name'', JStr ''Chicken rice bowl'')]"
    "parsed_ingredients (cooking_tips_node enhancing_service
        (search_and_enhance enhancing_service latched_state)) = []"
    by (simp_all add: draft_kept_by_tips draft_kept_by_search_and_enhance shape)
  obtain t2 where "final_recipe_compiler_node enhancing_service
        (cooking_tips_node enhancing_service (search_and_enhance enhancing_service latched_state))
        = Inr t2"
    using compiles[OF stage_input] by blast
  then have t2: "enhanced_cooking_tips_node enhancing_service latched_state = Inr t2"
    by (simp add: enhanced_stage_order)
  obtain t3 where t3: "combined_recipe_generation_node enhancing_service latched_state = Inr t3"
    using combined_returns by blast
  from T t1 have l1: "search_enhancement_complete t1" by blast
  from T t2 have l2: "search_enhancement_complete t2" by blast
  from T t3 have l3: "search_enhancement_complete t3" by blast
  from T latch tips t1 l1 t2 l2 t3 l3 show ?thesis
    by simp
qed

section \<open>The completeness audit\<close>

lemma total_length_strings: "total_length (map JStr steps) = Inr (sum_list (map length steps))"
  by (induction steps) auto

lemma needs_completion_strings:
  "needs_completion (JList (map JStr steps)) =
     Inr (length steps < 3 \<or> real (sum_list (map length steps)) / real (length steps) < 30)"
  by (cases "steps = []") (auto simp: needs_completion_def total_length_strings)

lemma strings_of_strings: "strings_of (map JStr xs) = Inr xs"
  by (induction xs) auto

lemma join_strings: "py_join_value sep (JList (map JStr xs)) = Inr (py_join sep xs)"
  by (simp add: py_join_value_def strings_of_strings)


lemma audit_well_formed:
  assumes recipe: "truthy (final_recipe s)"
    and steps: "py_get (final_recipe s) ''instructions'' (JList []) = Inr (JList (map JStr steps))"
    and ings: "py_get (final_recipe s) ''ingredients'' (JList []) = Inr (JList (map JStr ings))"
  shows "instruction_completion_node svc s =
     (if \<not> (length steps < 3 \<or> real (sum_list (map length steps)) / real (length steps) < 30)
      then (s\<lparr>processing_step := ''instruction_completion_complete''\<rparr>, [])
      else
        (case completion_reply svc of
           LlmRaises e \<Rightarrow> (s\<lparr>processing_step := ''instruction_completion''\<rparr>, [CorrectionCall])
         | LlmContent content \<Rightarrow>
             (case apply_completion svc (s\<lparr>processing_step := ''instruction_completion''\<rparr>)
                     (final_recipe s) (JList (map JStr steps)) content of
                Inl e \<Rightarrow> (s\<lparr>processing_step := ''instruction_completion''\<rparr>, [CorrectionCall])
              | Inr state' \<Rightarrow>
                  (state'\<lparr>processing_step := ''instruction_completion_complete''\<rparr>,
                   [CorrectionCall]))))"
proof (cases "completion_reply svc")
  case (LlmRaises e)
  with assms show ?thesis
    by (simp add: instruction_completion_node_def Let_def needs_completion_strings join_strings)
next
  case (LlmContent content)
  with assms show ?thesis
    by (simp add: instruction_completion_node_def Let_def needs_completion_strings join_strings)
qed

text \<open>
  Claim C6, as the code has it. For a final recipe that is a non-empty dict whose
  instructions and ingredients are lists of strings (an absent key counts as the empty
  list), the audit makes the correction call if and only if there are fewer than 3 steps
  or the mean length of the steps is below 30. An empty final recipe is returned at once,
  without a call.
\<close>

theorem audit_trigger:
  "(\<forall>steps ings.
      truthy (final_recipe s)
      \<and> py_get (final_recipe s) ''instructions'' (JList []) = Inr (JList (map JStr steps))
      \<and> py_get (final_recipe s) ''ingredients'' (JList []) = Inr (JList (map JStr ings)) \<longrightarrow>
      snd (instruction_completion_node svc s) =
        (if length steps < 3 \<or> real (sum_list (map length steps)) / real (length steps) < 30
         then [CorrectionCall] else []))
   \<and> (\<not> truthy (final_recipe s) \<longrightarrow>
        instruction_completion_node svc s =
          (s\<lparr>processing_step := ''instruction_completion''\<rparr>, []))"
proof (intro conjI allI impI)
  fix steps ings
  assume h: "truthy (final_recipe s)
      \<and> py_get (final_recipe s) ''instructions'' (JList []) = Inr (JList (map JStr steps))
      \<and> py_get (final_recipe s) ''ingredients'' (JList []) = Inr (JList (map JStr ings))"
  then have "truthy (final_recipe s)"
    and "py_get (final_recipe s) ''instructions'' (JList []) = Inr (JList (map JStr steps))"
    and "py_get (final_recipe s) ''ingredients'' (JList []) = Inr (JList (map JStr ings))"
    by simp_all
  from audit_well_formed[OF this]
  show "snd (instruction_completion_node svc s) =
        (if length steps < 3 \<or> real (sum_list (map length steps)) / real (length steps) < 30
         then [CorrectionCall] else [])"
    by (simp split: llm_reply.split sum.split)
next
  assume "\<not> truthy (final_recipe s)"
  then show "instruction_completion_node svc s =
          (s\<lparr>processing_step := ''instruction_completion''\<rparr>, [])"
    by (simp add: instruction_completion_node_def)
qed




lemma long_steps_chars: "sum_list (map length long_steps) = 195"
  by (simp add: long_steps_def)


lemma hollow_draft:
  "combined_recipe_generation_node hollow_service example_request = Inr hollow_state"
  by (simp add: combined_cases store_generated_def generate_combined_recipe_def
      generate_json_response_def validate_recipe_data_def required_keys_def
      hollow_service_def failing_service_def parse_example
      hollow_state_def example_request_def initial_state_def)

text \<open>
  Claim C6 as stated fails on an empty final recipe. The draft stage stores the empty
  recipe of a reply that has the three keys; its instruction list is the empty list, fewer
  than 3 steps, and the audit returns at its first test without a call.
\<close>

theorem audit_skips_empty_recipe:
  "combined_recipe_generation_node hollow_service example_request = Inr hollow_state
   \<and> final_recipe hollow_state = JDict []
   \<and> dict_get [] ''instructions'' (JList []) = JList []
   \<and> completion_reply hollow_service = LlmContent three_steps_text
   \<and> instruction_completion_node hollow_service hollow_state =
       (hollow_state\<lparr>processing_step := ''instruction_completion''\<rparr>, [])
   \<and> stages_executed hollow_service example_request =
       [''combined_recipe_generation'', ''instruction_completion'']"
proof -
  have recipe: "final_recipe hollow_state = JDict []"
    by (simp add: hollow_state_def example_request_def initial_state_def)
  have none: "tavily_api_key hollow_service = None"
    by (simp add: hollow_service_def failing_service_def)
  have reply: "completion_reply hollow_service = LlmContent three_steps_text"
    by (simp add: hollow_service_def failing_service_def)
  have audit: "instruction_completion_node hollow_service hollow_state =
       (hollow_state\<lparr>processing_step := ''instruction_completion''\<rparr>, [])"
    by (simp add: instruction_completion_node_def recipe)
  have stages: "stages_executed hollow_service example_request =
       [''combined_recipe_generation'', ''instruction_completion'']"
    using run_without_key[OF none hollow_draft] by (simp add: stages_executed_def)
  from hollow_draft recipe reply audit stages show ?thesis
    by (simp add: dict_get_def)
qed

text \<open>
  The examples of the specification: correction is attempted on the single step
  \<^verbatim>\<open>ok\<close>, and not on the three long steps.
\<close>

theorem audit_trigger_witness:
  "snd (instruction_completion_node failing_service terse_state) = [CorrectionCall]
   \<and> snd (instruction_completion_node failing_service drafted_state) = []
   \<and> snd (instruction_completion_node hollow_service hollow_state) = []"
proof -
  have a1: "truthy (final_recipe terse_state)"
    by (simp add: terse_state_def terse_recipe_def)
  have a2: "py_get (final_recipe terse_state) ''instructions'' (JList []) = Inr (JList (map JStr [''ok'']))"
    by (simp add: terse_state_def terse_recipe_def dict_get_def)
  have a3: "py_get (final_recipe terse_state) ''ingredients'' (JList []) =
      Inr (JList (map JStr [''2 chicken breasts'', ''1 cup rice'']))"
    by (simp add: terse_state_def terse_recipe_def dict_get_def)
  have b1: "truthy (final_recipe drafted_state)"
    by (simp add: drafted_state_def listy_recipe_def)
  have b2: "py_get (final_recipe drafted_state) ''instructions'' (JList []) = Inr (JList (map JStr long_steps))"
    by (simp add: drafted_state_def listy_recipe_def dict_get_def)
  have b3: "py_get (final_recipe drafted_state) ''ingredients'' (JList []) =
      Inr (JList (map JStr [''2 chicken breasts'', ''1 cup rice'', ''1 head broccoli'']))"
    by (simp add: drafted_state_def listy_recipe_def dict_get_def)
  have n: "length long_steps = 3" by (simp add: long_steps_def)
  have c1: "\<not> truthy (final_recipe hollow_state)"
    by (simp add: hollow_state_def example_request_def initial_state_def)
  from audit_trigger[of terse_state failing_service, THEN conjunct1, rule_format,
      of "[''ok'']" "[''2 chicken breasts'', ''1 cup rice'']"] a1 a2 a3
  have a: "snd (instruction_completion_node failing_service terse_state) = [CorrectionCall]"
    by simp
  from audit_trigger[of drafted_state failing_service, THEN conjunct1, rule_format,
      of long_steps "[''2 chicken breasts'', ''1 cup rice'', ''1 head broccoli'']"] b1 b2 b3
  have b: "snd (instruction_completion_node failing_service drafted_state) = []"
    by (simp add: long_steps_chars n)
  from audit_trigger[of hollow_state hollow_service, THEN conjunct2] c1
  have c: "snd (instruction_completion_node hollow_service hollow_state) = []"
    by simp
  from a b c show ?thesis by simp
qed



section \<open>The search stage\<close>

lemma build_ignores_step:
  "build_search_queries svc (s\<lparr>processing_step := x\<rparr>) = build_search_queries svc s"
  by (simp add: build_search_queries_def split: sum.split)

lemma build_at_most_three: "build_search_queries svc s = Inr qs \<Longrightarrow> length qs \<le> 3"
  by (cases "py_get (selected_recipe s) ''name'' JNull") (auto simp: build_search_queries_def)

lemma collect_appends: "\<exists>more. fst (collect_results q items acc) = acc @ more"
proof (induction items arbitrary: acc)
  case Nil
  then show ?case by simp
next
  case (Cons r rest)
  show ?case
  proof (cases r)
    case (JDict kvs)
    obtain more where
      "fst (collect_results q rest
              (acc @ [JDict [(''title'', dict_get kvs ''title'' (JStr [])),
                             (''content'', dict_get kvs ''content'' (JStr [])),
                             (''url'', dict_get kvs ''url'' (JStr [])),
                             (''query'', JStr q)]])) =
       (acc @ [JDict [(''title'', dict_get kvs ''title'' (JStr [])),
                      (''content'', dict_get kvs ''content'' (JStr [])),
                      (''url'', dict_get kvs ''url'' (JStr [])),
                      (''query'', JStr q)]]) @ more"
      using Cons.IH by blast
    with JDict show ?thesis by simp
  qed simp_all
qed

lemma attempt_appends: "\<exists>more. fst (search_attempt svc i q acc) = acc @ more"
proof (cases "tavily_search svc i q 2")
  case (SearchRaises e)
  then show ?thesis by (simp add: search_attempt_def)
next
  case (SearchReturns response)
  show ?thesis
  proof (cases "truthy response")
    case False
    with SearchReturns show ?thesis by (simp add: search_attempt_def)
  next
    case True
    show ?thesis
    proof (cases "py_in ''results'' response")
      case (Inl e)
      with SearchReturns True show ?thesis by (simp add: search_attempt_def)
    next
      case (Inr found)
      show ?thesis
      proof (cases found)
        case False
        with SearchReturns True Inr show ?thesis by (simp add: search_attempt_def)
      next
        case found: True
        show ?thesis
        proof (cases "py_getitem response ''results''")
          case (Inl e)
          with SearchReturns True Inr found show ?thesis by (simp add: search_attempt_def)
        next
          case rs: (Inr rs)
          show ?thesis
          proof (cases "py_iter rs")
            case (Inl e)
            with SearchReturns True Inr found rs show ?thesis by (simp add: search_attempt_def)
          next
            case items: (Inr items)
            with SearchReturns True Inr found rs collect_appends[of q items acc] show ?thesis
              by (simp add: search_attempt_def)
          qed
        qed
      qed
    qed
  qed
qed

lemma perform_step_ok:
  "search_attempt svc i q acc = (collected, None) \<Longrightarrow>
     perform_searches svc i (q # rest) acc =
       (fst (perform_searches svc (Suc i) rest collected),
        SearchCall q 2 # snd (perform_searches svc (Suc i) rest collected))"
  by (simp split: prod.split)

lemma perform_step_auth:
  "search_attempt svc i q acc = (collected, Some e) \<Longrightarrow> is_auth_error (str_of_error svc e) \<Longrightarrow>
     perform_searches svc i (q # rest) acc = (collected, [SearchCall q 2])"
  by simp

lemma perform_step_other:
  "search_attempt svc i q acc = (collected, Some e) \<Longrightarrow> \<not> is_auth_error (str_of_error svc e) \<Longrightarrow>
     perform_searches svc i (q # rest) acc =
       (fst (perform_searches svc (Suc i) rest collected),
        SearchCall q 2 # snd (perform_searches svc (Suc i) rest collected))"
  by (simp split: prod.split)

lemma perform_calls_prefix:
  "\<exists>m\<le>length qs. snd (perform_searches svc i qs acc) = map (\<lambda>q. SearchCall q 2) (take m qs)"
proof (induction qs arbitrary: i acc)
  case Nil
  then show ?case by simp
next
  case (Cons q rest)
  obtain collected err where att: "search_attempt svc i q acc = (collected, err)"
    by (cases "search_attempt svc i q acc")
  obtain m where m: "m \<le> length rest"
    "snd (perform_searches svc (Suc i) rest collected) = map (\<lambda>q. SearchCall q 2) (take m rest)"
    using Cons.IH by blast
  show ?case
  proof (cases err)
    case None
    with att have "snd (perform_searches svc i (q # rest) acc) =
        map (\<lambda>q. SearchCall q 2) (take (Suc m) (q # rest))"
      by (simp add: perform_step_ok m(2) del: perform_searches.simps)
    with m(1) show ?thesis by (intro exI[of _ "Suc m"]) simp
  next
    case (Some e)
    show ?thesis
    proof (cases "is_auth_error (str_of_error svc e)")
      case True
      with att Some have "snd (perform_searches svc i (q # rest) acc) =
          map (\<lambda>q. SearchCall q 2) (take (Suc 0) (q # rest))"
        by (simp add: perform_step_auth del: perform_searches.simps)
      then show ?thesis by (intro exI[of _ "Suc 0"]) simp
    next
      case False
      with att Some have "snd (perform_searches svc i (q # rest) acc) =
          map (\<lambda>q. SearchCall q 2) (take (Suc m) (q # rest))"
        by (simp add: perform_step_other m(2) del: perform_searches.simps)
      with m(1) show ?thesis by (intro exI[of _ "Suc m"]) simp
    qed
  qed
qed

lemma perform_all_raise:
  assumes "\<And>i q. \<exists>e. tavily_search svc i q 2 = SearchRaises e"
  shows "fst (perform_searches svc i qs acc) = acc"
proof (induction qs arbitrary: i)
  case Nil
  then show ?case by simp
next
  case (Cons q rest)
  obtain e where e: "tavily_search svc i q 2 = SearchRaises e"
    using assms by blast
  then have att: "search_attempt svc i q acc = (acc, Some e)"
    by (simp add: search_attempt_def)
  show ?case
  proof (cases "is_auth_error (str_of_error svc e)")
    case True
    with att show ?thesis by (simp add: perform_step_auth del: perform_searches.simps)
  next
    case False
    with att Cons.IH show ?thesis by (simp add: perform_step_other del: perform_searches.simps)
  qed
qed

lemma perform_last:
  "snd (perform_searches svc i [q] acc) = [SearchCall q 2]"
  by (simp split: prod.split option.split)

lemma search_node_calls:
  "snd (online_search_node svc s) =
     (if tavily_client svc
      then (case build_search_queries svc s of
              Inl e \<Rightarrow> []
            | Inr qs \<Rightarrow> snd (perform_searches svc 0 (take 2 qs) []))
      else [])"
  by (simp add: online_search_node_def Let_def build_ignores_step split: sum.split prod.split)

lemma search_node_results:
  "online_search_results (fst (online_search_node svc s)) =
     (if tavily_client svc
      then (case build_search_queries svc s of
              Inl e \<Rightarrow> []
            | Inr qs \<Rightarrow> fst (perform_searches svc 0 (take 2 qs) []))
      else [])"
  by (simp add: online_search_node_def Let_def build_ignores_step split: sum.split prod.split)

lemma search_node_flag:
  "search_enhanced (fst (online_search_node svc s)) =
     (online_search_results (fst (online_search_node svc s)) \<noteq> [])"
  by (simp add: online_search_node_def Let_def build_ignores_step split: sum.split prod.split)

lemma search_node_message:
  "build_search_queries svc s = Inr qs \<Longrightarrow>
     error_message (fst (online_search_node svc s)) = error_message s"
  by (simp add: online_search_node_def Let_def build_ignores_step split: prod.split)

lemma search_node_prefix:
  "\<exists>m\<le>2. snd (online_search_node svc s) =
     (case build_search_queries svc s of
        Inl e \<Rightarrow> []
      | Inr qs \<Rightarrow> map (\<lambda>q. SearchCall q 2) (take m qs))"
proof (cases "tavily_client svc")
  case False
  then show ?thesis
    by (intro exI[of _ 0]) (simp add: search_node_calls split: sum.split)
next
  case True
  show ?thesis
  proof (cases "build_search_queries svc s")
    case (Inl e)
    with True show ?thesis by (intro exI[of _ 0]) (simp add: search_node_calls)
  next
    case (Inr qs)
    obtain m where m: "m \<le> length (take 2 qs)"
      "snd (perform_searches svc 0 (take 2 qs) []) = map (\<lambda>q. SearchCall q 2) (take m (take 2 qs))"
      using perform_calls_prefix by blast
    then have "m \<le> 2" by simp
    moreover from this have "take m (take 2 qs) = take m qs" by (simp add: min_def)
    ultimately show ?thesis
      using True Inr m(2) by (intro exI[of _ m]) (simp add: search_node_calls)
  qed
qed

text \<open>
  Claim C8. The search node issues at most 2 searches, each asking for 2 results, for the
  first of at most 3 queries built. In the loop, an exception whose text names an
  authentication failure ends the loop at once, with the results collected so far (which
  extend those before the query); any other exception goes on with the next query. When
  every search raises, the results are empty, the flag is false, and the node returns
  with the error message untouched.
\<close>

theorem search_stage_bounded:
  "length (snd (online_search_node svc s)) \<le> 2
   \<and> (\<forall>c \<in> set (snd (online_search_node svc s)). \<exists>q. c = SearchCall q 2)
   \<and> (\<forall>qs. build_search_queries svc s = Inr qs \<longrightarrow>
         length qs \<le> 3
         \<and> (\<exists>m\<le>2. snd (online_search_node svc s) = map (\<lambda>q. SearchCall q 2) (take m qs)))
   \<and> (\<forall>i q rest acc collected e.
         search_attempt svc i q acc = (collected, Some e) \<and> is_auth_error (str_of_error svc e) \<longrightarrow>
         perform_searches svc i (q # rest) acc = (collected, [SearchCall q 2])
         \<and> (\<exists>more. collected = acc @ more))
   \<and> (\<forall>i q rest acc collected e.
         search_attempt svc i q acc = (collected, Some e) \<and> \<not> is_auth_error (str_of_error svc e) \<longrightarrow>
         perform_searches svc i (q # rest) acc =
           (fst (perform_searches svc (Suc i) rest collected),
            SearchCall q 2 # snd (perform_searches svc (Suc i) rest collected)))
   \<and> ((\<forall>i q. \<exists>e. tavily_search svc i q 2 = SearchRaises e) \<longrightarrow>
         online_search_results (fst (online_search_node svc s)) = []
         \<and> \<not> search_enhanced (fst (online_search_node svc s))
         \<and> (\<forall>qs. build_search_queries svc s = Inr qs \<longrightarrow>
               error_message (fst (online_search_node svc s)) = error_message s))
   \<and> (\<forall>q1 rest collected e.
         tavily_client svc \<and> build_search_queries svc s = Inr (q1 # rest)
         \<and> search_attempt svc 0 q1 [] = (collected, Some e)
         \<and> is_auth_error (str_of_error svc e) \<longrightarrow>
         snd (online_search_node svc s) = [SearchCall q1 2]
         \<and> online_search_results (fst (online_search_node svc s)) = collected)
   \<and> (\<forall>q1 q2 rest collected e.
         tavily_client svc \<and> build_search_queries svc s = Inr (q1 # q2 # rest)
         \<and> search_attempt svc 0 q1 [] = (collected, Some e)
         \<and> \<not> is_auth_error (str_of_error svc e) \<longrightarrow>
         snd (online_search_node svc s) = [SearchCall q1 2, SearchCall q2 2])"
proof (intro conjI)
  obtain m where m: "m \<le> 2"
    "snd (online_search_node svc s) =
     (case build_search_queries svc s of
        Inl e \<Rightarrow> []
      | Inr qs \<Rightarrow> map (\<lambda>q. SearchCall q 2) (take m qs))"
    using search_node_prefix by blast
  show "length (snd (online_search_node svc s)) \<le> 2"
    using m by (auto split: sum.split)
  show "\<forall>c \<in> set (snd (online_search_node svc s)). \<exists>q. c = SearchCall q 2"
    using m(2) by (auto split: sum.splits)
  show "\<forall>qs. build_search_queries svc s = Inr qs \<longrightarrow>
         length qs \<le> 3
         \<and> (\<exists>m\<le>2. snd (online_search_node svc s) = map (\<lambda>q. SearchCall q 2) (take m qs))"
    using m build_at_most_three by auto
next
  show "\<forall>i q rest acc collected e.
         search_attempt svc i q acc = (collected, Some e) \<and> is_auth_error (str_of_error svc e) \<longrightarrow>
         perform_searches svc i (q # rest) acc = (collected, [SearchCall q 2])
         \<and> (\<exists>more. collected = acc @ more)"
  proof (intro allI impI)
    fix i q rest acc collected e
    assume h: "search_attempt svc i q acc = (collected, Some e) \<and> is_auth_error (str_of_error svc e)"
    from attempt_appends[of svc i q acc] h have "\<exists>more. collected = acc @ more" by simp
    with h show "perform_searches svc i (q # rest) acc = (collected, [SearchCall q 2])
         \<and> (\<exists>more. collected = acc @ more)"
      by (simp add: perform_step_auth del: perform_searches.simps)
  qed
next
  show "\<forall>i q rest acc collected e.
         search_attempt svc i q acc = (collected, Some e) \<and> \<not> is_auth_error (str_of_error svc e) \<longrightarrow>
         perform_searches svc i (q # rest) acc =
           (fst (perform_searches svc (Suc i) rest collected),
            SearchCall q 2 # snd (perform_searches svc (Suc i) rest collected))"
    using perform_step_other by blast
next
  show "(\<forall>i q. \<exists>e. tavily_search svc i q 2 = SearchRaises e) \<longrightarrow>
         online_search_results (fst (online_search_node svc s)) = []
         \<and> \<not> search_enhanced (fst (online_search_node svc s))
         \<and> (\<forall>qs. build_search_queries svc s = Inr qs \<longrightarrow>
               error_message (fst (online_search_node svc s)) = error_message s)"
  proof (intro impI)
    assume all: "\<forall>i q. \<exists>e. tavily_search svc i q 2 = SearchRaises e"
    then have "fst (perform_searches svc i qs acc) = acc" for i qs acc
      by (intro perform_all_raise) blast
    then have "online_search_results (fst (online_search_node svc s)) = []"
      by (simp add: search_node_results split: sum.split)
    then show "online_search_results (fst (online_search_node svc s)) = []
         \<and> \<not> search_enhanced (fst (online_search_node svc s))
         \<and> (\<forall>qs. build_search_queries svc s = Inr qs \<longrightarrow>
               error_message (fst (online_search_node svc s)) = error_message s)"
      using search_node_message by (simp add: search_node_flag)
  qed
next
  show "\<forall>q1 rest collected e.
         tavily_client svc \<and> build_search_queries svc s = Inr (q1 # rest)
         \<and> search_attempt svc 0 q1 [] = (collected, Some e)
         \<and> is_auth_error (str_of_error svc e) \<longrightarrow>
         snd (online_search_node svc s) = [SearchCall q1 2]
         \<and> online_search_results (fst (online_search_node svc s)) = collected"
  proof (intro allI impI)
    fix q1 rest collected e
    assume h: "tavily_client svc \<and> build_search_queries svc s = Inr (q1 # rest)
         \<and> search_attempt svc 0 q1 [] = (collected, Some e)
         \<and> is_auth_error (str_of_error svc e)"
    then have "perform_searches svc 0 (q1 # take (Suc 0) rest) [] = (collected, [SearchCall q1 2])"
      by (simp add: perform_step_auth del: perform_searches.simps)
    with h show "snd (online_search_node svc s) = [SearchCall q1 2]
         \<and> online_search_results (fst (online_search_node svc s)) = collected"
      by (simp add: search_node_calls search_node_results numeral_2_eq_2
          del: perform_searches.simps)
  qed
next
  show "\<forall>q1 q2 rest collected e.
         tavily_client svc \<and> build_search_queries svc s = Inr (q1 # q2 # rest)
         \<and> search_attempt svc 0 q1 [] = (collected, Some e)
         \<and> \<not> is_auth_error (str_of_error svc e) \<longrightarrow>
         snd (online_search_node svc s) = [SearchCall q1 2, SearchCall q2 2]"
  proof (intro allI impI)
    fix q1 q2 rest collected e
    assume h: "tavily_client svc \<and> build_search_queries svc s = Inr (q1 # q2 # rest)
         \<and> search_attempt svc 0 q1 [] = (collected, Some e)
         \<and> \<not> is_auth_error (str_of_error svc e)"
    then have "snd (perform_searches svc 0 (q1 # [q2]) []) =
        SearchCall q1 2 # snd (perform_searches svc (Suc 0) [q2] collected)"
      by (simp add: perform_step_other del: perform_searches.simps)
    then have "snd (perform_searches svc 0 [q1, q2] []) = [SearchCall q1 2, SearchCall q2 2]"
      by (simp add: perform_last del: perform_searches.simps)
    with h show "snd (online_search_node svc s) = [SearchCall q1 2, SearchCall q2 2]"
      by (simp add: search_node_calls numeral_2_eq_2 del: perform_searches.simps)
  qed
qed

lemma auth_text: "is_auth_error ''401 Unauthorized: invalid API key''"
  by code_simp

lemma other_text: "\<not> is_auth_error ''Connection refused''"
  by code_simp

lemma drafted_queries:
  "build_search_queries svc drafted_state = Inr [query_one, query_two, query_three]"
  by (simp add: build_search_queries_def drafted_state_def listy_recipe_def dict_get_def
      format_value_def example_request_def initial_state_def query_one_def query_two_def
      query_three_def)

lemma revoked_attempt:
  "search_attempt revoked_service i q acc = (acc, Some (Exception ''401 Unauthorized: invalid API key''))"
  by (simp add: search_attempt_def revoked_service_def keyed_service_def failing_service_def)

lemma keyed_attempt:
  "search_attempt keyed_service i q acc = (acc, Some (Exception ''Connection refused''))"
  by (simp add: search_attempt_def keyed_service_def failing_service_def)

lemma expiring_first:
  "search_attempt expiring_service 0 query_one [] = ([rice_result], None)"
  by (simp add: search_attempt_def expiring_service_def keyed_service_def failing_service_def
      rice_response_def rice_result_def dict_get_def)

lemma expiring_second:
  "search_attempt expiring_service (Suc 0) q acc =
     (acc, Some (Exception ''401 Unauthorized: invalid API key''))"
  by (simp add: search_attempt_def expiring_service_def keyed_service_def failing_service_def)

lemma clients:
  "tavily_client revoked_service" "tavily_client keyed_service" "tavily_client expiring_service"
  by (simp_all add: tavily_client_def revoked_service_def expiring_service_def keyed_service_def
      failing_service_def)

text \<open>
  A revoked key stops after the first of three queries; a key that expires after the
  first answer keeps that answer; a dead connection lets both searches run and leaves no
  results and no error message.
\<close>

theorem search_stage_bounded_witness:
  "build_search_queries revoked_service drafted_state = Inr [query_one, query_two, query_three]
   \<and> search_attempt revoked_service 0 query_one [] =
       ([], Some (Exception ''401 Unauthorized: invalid API key''))
   \<and> is_auth_error (str_of_error revoked_service (Exception ''401 Unauthorized: invalid API key''))
   \<and> search_attempt keyed_service 0 query_one [] = ([], Some (Exception ''Connection refused''))
   \<and> \<not> is_auth_error (str_of_error keyed_service (Exception ''Connection refused''))
   \<and> snd (online_search_node revoked_service drafted_state) = [SearchCall query_one 2]
   \<and> online_search_results (fst (online_search_node revoked_service drafted_state)) = []
   \<and> perform_searches expiring_service (Suc 0) [query_two] [rice_result] =
       ([rice_result], [SearchCall query_two 2])
   \<and> snd (online_search_node expiring_service drafted_state) =
       [SearchCall query_one 2, SearchCall query_two 2]
   \<and> online_search_results (fst (online_search_node expiring_service drafted_state)) = [rice_result]
   \<and> snd (online_search_node keyed_service drafted_state) =
       [SearchCall query_one 2, SearchCall query_two 2]
   \<and> online_search_results (fst (online_search_node keyed_service drafted_state)) = []
   \<and> \<not> search_enhanced (fst (online_search_node keyed_service drafted_state))
   \<and> error_message (fst (online_search_node keyed_service drafted_state)) = []"
proof -
  note revoked = search_stage_bounded[of revoked_service drafted_state]
  note expiring = search_stage_bounded[of expiring_service drafted_state]
  note keyed = search_stage_bounded[of keyed_service drafted_state]
  have auth_revoked:
    "is_auth_error (str_of_error revoked_service (Exception ''401 Unauthorized: invalid API key''))"
    by (simp add: str_of_error_def auth_text)
  have auth_expiring:
    "is_auth_error (str_of_error expiring_service (Exception ''401 Unauthorized: invalid API key''))"
    by (simp add: str_of_error_def auth_text)
  have other_keyed: "\<not> is_auth_error (str_of_error keyed_service (Exception ''Connection refused''))"
    by (simp add: str_of_error_def other_text)
  have r: "snd (online_search_node revoked_service drafted_state) = [SearchCall query_one 2]
      \<and> online_search_results (fst (online_search_node revoked_service drafted_state)) = []"
  proof (rule revoked[THEN conjunct2, THEN conjunct2, THEN conjunct2, THEN conjunct2,
        THEN conjunct2, THEN conjunct2, THEN conjunct1, rule_format])
    show "tavily_client revoked_service
        \<and> build_search_queries revoked_service drafted_state = Inr (query_one # [query_two, query_three])
        \<and> search_attempt revoked_service 0 query_one [] =
            ([], Some (Exception ''401 Unauthorized: invalid API key''))
        \<and> is_auth_error (str_of_error revoked_service (Exception ''401 Unauthorized: invalid API key''))"
      using auth_revoked by (simp add: clients drafted_queries revoked_attempt)
  qed
  have e1: "perform_searches expiring_service (Suc 0) (query_two # []) [rice_result] =
       ([rice_result], [SearchCall query_two 2])
       \<and> (\<exists>more. [rice_result] = [rice_result] @ more)"
  proof (rule expiring[THEN conjunct2, THEN conjunct2, THEN conjunct2, THEN conjunct1, rule_format])
    show "search_attempt expiring_service (Suc 0) query_two [rice_result] =
            ([rice_result], Some (Exception ''401 Unauthorized: invalid API key''))
        \<and> is_auth_error (str_of_error expiring_service (Exception ''401 Unauthorized: invalid API key''))"
      using auth_expiring by (simp add: expiring_second)
  qed
  have e2: "perform_searches expiring_service 0 [query_one, query_two] [] =
       ([rice_result], [SearchCall query_one 2, SearchCall query_two 2])"
    using e1 expiring_first by (simp add: perform_step_ok del: perform_searches.simps)
  have e3: "snd (online_search_node expiring_service drafted_state) =
       [SearchCall query_one 2, SearchCall query_two 2]"
    using e2 by (simp add: search_node_calls clients drafted_queries del: perform_searches.simps)
  have e4: "online_search_results (fst (online_search_node expiring_service drafted_state)) = [rice_result]"
    using e2 by (simp add: search_node_results clients drafted_queries del: perform_searches.simps)
  have k0: "\<forall>i q. \<exists>e. tavily_search keyed_service i q 2 = SearchRaises e"
    by (simp add: keyed_service_def failing_service_def)
  have k1: "online_search_results (fst (online_search_node keyed_service drafted_state)) = []
         \<and> \<not> search_enhanced (fst (online_search_node keyed_service drafted_state))
         \<and> (\<forall>qs. build_search_queries keyed_service drafted_state = Inr qs \<longrightarrow>
               error_message (fst (online_search_node keyed_service drafted_state)) =
               error_message drafted_state)"
    by (rule mp[OF keyed[THEN conjunct2, THEN conjunct2, THEN conjunct2, THEN conjunct2,
        THEN conjunct2, THEN conjunct1] k0])
  have k2: "snd (online_search_node keyed_service drafted_state) =
       [SearchCall query_one 2, SearchCall query_two 2]"
  proof (rule keyed[THEN conjunct2, THEN conjunct2, THEN conjunct2, THEN conjunct2,
        THEN conjunct2, THEN conjunct2, THEN conjunct2, rule_format])
    show "tavily_client keyed_service
        \<and> build_search_queries keyed_service drafted_state = Inr (query_one # query_two # [query_three])
        \<and> search_attempt keyed_service 0 query_one [] = ([], Some (Exception ''Connection refused''))
        \<and> \<not> is_auth_error (str_of_error keyed_service (Exception ''Connection refused''))"
      using other_keyed by (simp add: clients drafted_queries keyed_attempt)
  qed
  have msg: "error_message drafted_state = []"
    by (simp add: drafted_state_def example_request_def initial_state_def)
  from r e1 e3 e4 k1 k2 msg drafted_queries[of revoked_service] drafted_queries[of keyed_service]
    auth_revoked other_keyed revoked_attempt[of 0 query_one "[]"] keyed_attempt[of 0 query_one "[]"]
  show ?thesis by simp
qed

section \<open>Tips in the search-enabled branch\<close>

lemma tips_of_reply:
  "cooking_tips (cooking_tips_node svc s) =
     (case tips_reply svc of LlmContent content \<Rightarrow> split_tips content | LlmRaises e \<Rightarrow> generic_tips)"
  by (simp add: cooking_tips_node_def Let_def split: llm_reply.split)

lemma tips_compile_recipe:
  "compile_recipe svc s = Inr t \<Longrightarrow> cooking_tips t = cooking_tips s"
  by (auto simp: compile_recipe_def split: sum.splits if_splits)

lemma tips_compile_fallback:
  "compile_fallback svc s = Inr t \<Longrightarrow> cooking_tips t = cooking_tips s"
  by (auto simp: compile_fallback_def Let_def split: sum.splits)

lemma tips_compiler:
  "final_recipe_compiler_node svc s = Inr t \<Longrightarrow> cooking_tips t = cooking_tips s"
  by (auto simp: final_recipe_compiler_node_def Let_def split: sum.splits
      dest: tips_compile_recipe tips_compile_fallback)

text \<open>
  Claim C9. In the stage of the search-enabled branch, tip generation runs on the state
  that search and enhancement returned, and compilation runs on its result. The tips it
  stores are the stripped non-empty lines of its own reply, or the four generic tips when
  the call fails, whatever the tips were before; compilation receives exactly these, and
  the stage, when it completes, returns them.
\<close>

theorem tips_overwritten:
  "enhanced_cooking_tips_node svc s =
     (case final_recipe_compiler_node svc (cooking_tips_node svc (search_and_enhance svc s)) of
        Inr compiled \<Rightarrow> Inr compiled
      | Inl e \<Rightarrow> Inl (Exception (''Error in enhanced cooking tips: '' @ str_of_error svc e)))
   \<and> cooking_tips (cooking_tips_node svc (search_and_enhance svc s)) =
       (case tips_reply svc of LlmContent content \<Rightarrow> split_tips content | LlmRaises e \<Rightarrow> generic_tips)
   \<and> (\<forall>t. enhanced_cooking_tips_node svc s = Inr t \<longrightarrow>
         cooking_tips t =
           (case tips_reply svc of LlmContent content \<Rightarrow> split_tips content | LlmRaises e \<Rightarrow> generic_tips))
   \<and> length generic_tips = 4"
proof (intro conjI allI impI)
  show "enhanced_cooking_tips_node svc s =
     (case final_recipe_compiler_node svc (cooking_tips_node svc (search_and_enhance svc s)) of
        Inr compiled \<Rightarrow> Inr compiled
      | Inl e \<Rightarrow> Inl (Exception (''Error in enhanced cooking tips: '' @ str_of_error svc e)))"
    by (rule enhanced_stage_order)
  show "cooking_tips (cooking_tips_node svc (search_and_enhance svc s)) =
       (case tips_reply svc of LlmContent content \<Rightarrow> split_tips content | LlmRaises e \<Rightarrow> generic_tips)"
    by (rule tips_of_reply)
  show "length generic_tips = 4"
    by (simp add: generic_tips_def)
next
  fix t
  assume "enhanced_cooking_tips_node svc s = Inr t"
  then have "final_recipe_compiler_node svc (cooking_tips_node svc (search_and_enhance svc s)) = Inr t"
    by (simp add: enhanced_stage_order split: sum.splits)
  from tips_compiler[OF this]
  show "cooking_tips t =
           (case tips_reply svc of LlmContent content \<Rightarrow> split_tips content | LlmRaises e \<Rightarrow> generic_tips)"
    by (simp add: tips_of_reply)
qed

lemma full_draft: "combined_recipe_generation_node full_service example_request = Inr drafted_state"
  by (simp add: combined_cases store_generated_def generate_combined_recipe_def
      generate_json_response_def validate_recipe_data_def required_keys_def
      full_service_def keyed_service_def failing_service_def listy_payload_def parse_example
      drafted_state_def example_request_def initial_state_def)

lemma full_attempts:
  "search_attempt full_service 0 query_one [] = ([rice_result], None)"
  "search_attempt full_service (Suc 0) q acc = (acc, Some (Exception ''Connection refused''))"
  by (simp_all add: search_attempt_def full_service_def keyed_service_def failing_service_def
      rice_response_def rice_result_def dict_get_def)

lemma full_search:
  "online_search_node full_service drafted_state =
     (drafted_state\<lparr>processing_step := ''online_search'',
                    online_search_results := [rice_result],
                    search_enhanced := True,
                    processing_step := ''online_search_complete''\<rparr>,
      [SearchCall query_one 2, SearchCall query_two 2])"
proof -
  have client: "tavily_client full_service"
    by (simp add: tavily_client_def full_service_def keyed_service_def failing_service_def)
  have other: "\<not> is_auth_error (str_of_error full_service (Exception ''Connection refused''))"
    by (simp add: str_of_error_def other_text)
  have "perform_searches full_service 0 [query_one, query_two] [] =
      ([rice_result], [SearchCall query_one 2, SearchCall query_two 2])"
    using other by (simp add: full_attempts)
  then show ?thesis
    using client
    by (simp add: online_search_node_def Let_def build_ignores_step drafted_queries
        del: perform_searches.simps)
qed

lemma full_enhance:
  "search_and_enhance full_service drafted_state =
     drafted_state\<lparr>processing_step := ''online_search'',
                    online_search_results := [rice_result],
                    search_enhanced := True,
                    processing_step := ''online_search_complete'',
                    processing_step := ''search_enhancement'',
                    cooking_tips := [''B'', ''C'', ''D''],
                    processing_step := ''search_enhancement_complete'',
                    search_enhancement_complete := True\<rparr>"
proof -
  have key: "tavily_enabled full_service"
    by (simp add: tavily_enabled_def full_service_def keyed_service_def failing_service_def)
  have reply: \<open>enhance_reply full_service = LlmContent ''["B", "C", "D"]''\<close>
    by (simp add: full_service_def keyed_service_def failing_service_def)
  have parsed: \<open>json_loads full_service ''["B", "C", "D"]'' =
      Some (JList [JStr ''B'', JStr ''C'', JStr ''D''])\<close>
    by (simp add: full_service_def keyed_service_def failing_service_def listy_reply_text_def)
  have content: "build_search_content full_service [rice_result] =
      Inr [''Source: Rice basics'' @ [CHR 0x0A] @ ''Rinse the rice first.'']"
    by (simp add: rice_result_def dict_get_def format_value_def)
  have tips: "cooking_tips drafted_state = []"
    by (simp add: drafted_state_def example_request_def initial_state_def)
  have name: "py_get (selected_recipe drafted_state) ''name'' (JStr ''Unknown Recipe'') =
      Inr (JStr ''Chicken rice bowl'')"
    by (simp add: drafted_state_def listy_recipe_def dict_get_def)
  have latch: "\<not> search_enhancement_complete drafted_state"
    by (simp add: drafted_state_def example_request_def initial_state_def)
  have merged: "merge_tips [] [JStr ''B'', JStr ''C'', JStr ''D''] = [''B'', ''C'', ''D'']"
    by (simp add: merge_tips_def)
  show ?thesis
    using key reply parsed content tips name latch merged
    by (simp add: search_and_enhance_def full_search enhance_with_search_node_def Let_def)
qed

lemma full_tips: "split_tips tips_text = [''1. Preheat the oven'', ''2. Rest the chicken'']"
  by (simp add: split_tips_def tips_text_def py_strip_def py_isspace_def)

text \<open>
  On the example, enhancement merges B, C and D into the tips, and after tip generation
  none of them is left.
\<close>

theorem tips_overwritten_witness:
  "cooking_tips (search_and_enhance full_service drafted_state) = [''B'', ''C'', ''D'']
   \<and> cooking_tips (cooking_tips_node full_service (search_and_enhance full_service drafted_state)) =
       [''1. Preheat the oven'', ''2. Rest the chicken'']
   \<and> (\<exists>t. enhanced_cooking_tips_node full_service drafted_state = Inr t
         \<and> cooking_tips t = [''1. Preheat the oven'', ''2. Rest the chicken''])"
proof -
  have reply: "tips_reply full_service = LlmContent tips_text"
    by (simp add: full_service_def keyed_service_def failing_service_def)
  have compiled: "\<exists>t. final_recipe_compiler_node full_service st = Inr t" for st
    by (simp add: final_recipe_compiler_node_def compile_recipe_def compiled_recipe_def
        full_service_def keyed_service_def failing_service_def dict_get_def Let_def)
  then obtain t where "final_recipe_compiler_node full_service
      (cooking_tips_node full_service (search_and_enhance full_service drafted_state)) = Inr t"
    by blast
  then have t: "enhanced_cooking_tips_node full_service drafted_state = Inr t"
    by (simp add: enhanced_stage_order)
  from tips_overwritten[of full_service drafted_state] reply t
  have "cooking_tips (cooking_tips_node full_service (search_and_enhance full_service drafted_state)) =
       [''1. Preheat the oven'', ''2. Rest the chicken'']
       \<and> cooking_tips t = [''1. Preheat the oven'', ''2. Rest the chicken'']"
    by (simp add: full_tips)
  with t show ?thesis by (simp add: full_enhance)
qed

section \<open>Whole runs on the examples\<close>

lemma drafted_audit:
  "instruction_completion_node svc drafted_state =
     (drafted_state\<lparr>processing_step := ''instruction_completion_complete''\<rparr>, [])"
proof -
  have b1: "truthy (final_recipe drafted_state)"
    by (simp add: drafted_state_def listy_recipe_def)
  have b2: "py_get (final_recipe drafted_state) ''instructions'' (JList []) = Inr (JList (map JStr long_steps))"
    by (simp add: drafted_state_def listy_recipe_def dict_get_def)
  have b3: "py_get (final_recipe drafted_state) ''ingredients'' (JList []) =
      Inr (JList (map JStr [''2 chicken breasts'', ''1 cup rice'', ''1 head broccoli'']))"
    by (simp add: drafted_state_def listy_recipe_def dict_get_def)
  have n: "length long_steps = 3" by (simp add: long_steps_def)
  show ?thesis
    by (simp add: audit_well_formed[OF b1 b2 b3] long_steps_chars n)
qed

lemma listy_draft_state:
  "combined_recipe_generation_node listy_service example_request = Inr drafted_state"
  by (simp add: listy_draft drafted_state_def)

text \<open>
  Claim C2 at a concrete run. Without a search key, a generated draft whose
  \<^verbatim>\<open>appliance_used\<close> is a list reaches the terminal state as it is: the final recipe
  holds the list, and the run reports no error. The compiler node, given the same shape
  by its chain, stores the first element.
\<close>

theorem draft_keeps_appliance_list:
  "tavily_api_key listy_service = None
   \<and> execute_workflow listy_service example_request =
       drafted_state\<lparr>processing_step := ''instruction_completion_complete''\<rparr>
   \<and> error_message (execute_workflow listy_service example_request) = []
   \<and> py_get (final_recipe (execute_workflow listy_service example_request)) ''appliance_used'' JNull
       = Inr (JList [JStr ''Oven'', JStr ''Stovetop''])
   \<and> (\<exists>t. final_recipe_compiler_node full_service drafted_state = Inr t
         \<and> py_get (final_recipe t) ''appliance_used'' JNull = Inr (JStr ''Oven''))"
proof -
  have none: "tavily_api_key listy_service = None"
    by (simp add: listy_service_def failing_service_def)
  have run: "execute_workflow listy_service example_request =
       drafted_state\<lparr>processing_step := ''instruction_completion_complete''\<rparr>"
    using run_without_key[OF none listy_draft_state]
    by (simp add: execute_workflow_def drafted_audit)
  have msg: "error_message drafted_state = []"
    by (simp add: drafted_state_def example_request_def initial_state_def)
  have used: "py_get (final_recipe drafted_state) ''appliance_used'' JNull
       = Inr (JList [JStr ''Oven'', JStr ''Stovetop''])"
    by (simp add: drafted_state_def listy_recipe_def dict_get_def)
  have compiled: "\<exists>t. final_recipe_compiler_node full_service drafted_state = Inr t
         \<and> py_get (final_recipe t) ''appliance_used'' JNull = Inr (JStr ''Oven'')"
    by (simp add: final_recipe_compiler_node_def compile_recipe_def compiled_recipe_def
        full_service_def keyed_service_def failing_service_def dict_get_def Let_def)
  from none run msg used compiled show ?thesis by simp
qed

text \<open>Both configurations on the example request.\<close>

theorem stages_by_configuration_witness:
  "tavily_api_key failing_service = None
   \<and> stages_executed failing_service example_request =
       [''combined_recipe_generation'', ''instruction_completion'']
   \<and> tavily_api_key full_service \<noteq> None
   \<and> stages_executed full_service example_request =
       [''combined_recipe_generation'', ''enhanced_cooking_tips'', ''instruction_completion'']
   \<and> map_of (nodes (create_workflow_graph failing_service)) ''enhanced_cooking_tips'' = None"
proof -
  have none: "tavily_api_key failing_service = None"
    by (simp add: failing_service_def)
  have some: "tavily_api_key full_service \<noteq> None"
    by (simp add: full_service_def keyed_service_def failing_service_def)
  have "\<exists>t. final_recipe_compiler_node full_service st = Inr t" for st
    by (simp add: final_recipe_compiler_node_def compile_recipe_def compiled_recipe_def
        full_service_def keyed_service_def failing_service_def dict_get_def Let_def)
  then obtain t where "final_recipe_compiler_node full_service
      (cooking_tips_node full_service (search_and_enhance full_service drafted_state)) = Inr t"
    by blast
  then have t: "enhanced_cooking_tips_node full_service drafted_state = Inr t"
    by (simp add: enhanced_stage_order)
  from stages_by_configuration[of failing_service example_request] none
  have a: "stages_executed failing_service example_request =
       [''combined_recipe_generation'', ''instruction_completion'']
       \<and> map_of (nodes (create_workflow_graph failing_service)) ''enhanced_cooking_tips'' = None"
    by simp
  from stages_by_configuration[of full_service example_request] some full_draft t
  have b: "stages_executed full_service example_request =
       [''combined_recipe_generation'', ''enhanced_cooking_tips'', ''instruction_completion'']"
    by blast
  from none some a b show ?thesis by simp
qed

end
